theory Spec2Isabelle
  imports Complex_Main
begin

section \<open>JavaScript values used by the service\<close>

text \<open>
  Strings are \<open>string\<close> (character lists). \<open>String.prototype.includes\<close> is a
  substring test.

  \<open>toLowerCase\<close> folds the ASCII letters, which is what
  \<open>String.prototype.toLowerCase\<close> does to a string of ASCII characters. On other
  strings the result is given by the Unicode tables of the JavaScript engine, which are
  not part of the repository: \<open>toLowerCaseIn unicode\<close> takes that folding as the
  parameter \<open>unicode\<close> and consults it exactly for the strings that are not pure
  ASCII. The retry wrapper only asks whether the folded message includes \<open>quota\<close>;
  no character outside ASCII folds to one of these five letters, so there the folding of
  the ASCII letters decides the test and \<open>toLowerCase\<close> is used as it is.
\<close>

definition startsWith :: "string \<Rightarrow> string \<Rightarrow> bool" where
  "startsWith s sub = (take (length sub) s = sub)"

fun js_includes :: "string \<Rightarrow> string \<Rightarrow> bool" where
  "js_includes [] sub = (sub = [])"
| "js_includes (c # cs) sub = (startsWith (c # cs) sub \<or> js_includes cs sub)"

definition lower_char :: "char \<Rightarrow> char" where
  "lower_char c =
     (let n = (of_char c :: nat)
      in if 65 \<le> n \<and> n \<le> 90 then char_of (n + 32) else c)"

definition toLowerCase :: "string \<Rightarrow> string" where
  "toLowerCase s = map lower_char s"

definition is_ascii :: "string \<Rightarrow> bool" where
  "is_ascii s = list_all (\<lambda>c. (of_char c :: nat) < 128) s"

definition toLowerCaseIn :: "(string \<Rightarrow> string) \<Rightarrow> string \<Rightarrow> string" where
  "toLowerCaseIn unicode s = (if is_ascii s then toLowerCase s else unicode s)"

text \<open>
  A thrown value. The wrappers read \<open>err?.message || ''\<close>: a thrown value without a
  message (or with an empty one) reads as the empty string.
\<close>

datatype thrown = Thrown (message: "string option")

definition errorMsg :: "thrown \<Rightarrow> string" where
  "errorMsg err = (case message err of None \<Rightarrow> [] | Some m \<Rightarrow> m)"

section \<open>Session state and the remote service\<close>

text \<open>
  \<open>sessionForceOffline\<close> is the module-level failover latch of
  \<open>services/geminiService.ts\<close>. The two other fields are ghost state that makes
  the effects of a call observable: \<open>calls\<close> counts the invocations of a wrapped
  remote attempt, \<open>slept\<close> lists the delays (in milliseconds) waited before retries.
  Console diagnostics (\<open>console.warn\<close>, \<open>logModeChange\<close>) are not session state
  and are left out.

  A wrapped attempt \<open>fn: () => Promise<T>\<close> is a call into the remote service. It
  cannot reach the module-private latch; each invocation either resolves to a value or
  throws. The model scripts it by the number of the invocation: \<open>fn k\<close> is the
  outcome of the invocation made when \<open>calls = k\<close>. Calls are sequential (every
  \<open>await\<close> completes before the next statement runs).
\<close>

record session =
  sessionForceOffline :: bool
  calls :: nat
  slept :: "rat list"

type_synonym 'r attempt = "nat \<Rightarrow> thrown + 'r"

definition isQuotaExceeded :: "string \<Rightarrow> bool" where
  "isQuotaExceeded errorMsg' =
     (js_includes (toLowerCase errorMsg') ''quota'' \<or> js_includes errorMsg' ''429''
      \<or> js_includes errorMsg' ''RESOURCE_EXHAUSTED'')"

definition isTransient :: "string \<Rightarrow> bool" where
  "isTransient errorMsg' =
     (isQuotaExceeded errorMsg' \<or> js_includes errorMsg' ''500''
      \<or> js_includes errorMsg' ''fetch'')"

text \<open>
  \<open>withRetry(fn, retries = 3, delay = 2000)\<close>, the wrapper of the critical
  operations. Every caller uses the default arguments, so \<open>retries\<close> is a natural
  number.
\<close>

fun withRetry :: "'r attempt \<Rightarrow> nat \<Rightarrow> rat \<Rightarrow> session \<Rightarrow> (thrown + 'r) \<times> session" where
  "withRetry fn retries delay s =
     (if sessionForceOffline s then (Inl (Thrown (Some ''SESSION_OFFLINE_FAILOVER'')), s)
      else
        (case fn (calls s) of
           Inr v \<Rightarrow> (Inr v, s\<lparr>calls := Suc (calls s)\<rparr>)
         | Inl err \<Rightarrow>
             (let s1 = s\<lparr>calls := Suc (calls s)\<rparr>;
                  s2 = (if isQuotaExceeded (errorMsg err)
                        then s1\<lparr>sessionForceOffline := True\<rparr> else s1)
              in if isTransient (errorMsg err) \<and> retries > 0
                    \<and> \<not> isQuotaExceeded (errorMsg err)
                 then withRetry fn (retries - 1) (delay * 2) (s2\<lparr>slept := slept s2 @ [delay]\<rparr>)
                 else (Inl err, s2))))"

text \<open>
  \<open>withImageRetry(fn, retries = 2, delay = 1000)\<close>, the wrapper of image generation.
\<close>

definition isTransientImage :: "string \<Rightarrow> bool" where
  "isTransientImage errorMsg' =
     (js_includes errorMsg' ''500'' \<or> js_includes errorMsg' ''fetch''
      \<or> js_includes errorMsg' ''timeout'')"

fun withImageRetry :: "'r attempt \<Rightarrow> nat \<Rightarrow> rat \<Rightarrow> session \<Rightarrow> (thrown + 'r) \<times> session" where
  "withImageRetry fn retries delay s =
     (case fn (calls s) of
        Inr v \<Rightarrow> (Inr v, s\<lparr>calls := Suc (calls s)\<rparr>)
      | Inl err \<Rightarrow>
          (let s1 = s\<lparr>calls := Suc (calls s)\<rparr>
           in if isTransientImage (errorMsg err) \<and> retries > 0
              then withImageRetry fn (retries - 1) (delay * (3 / 2)) (s1\<lparr>slept := slept s1 @ [delay]\<rparr>)
              else (Inl err, s1)))"

declare withRetry.simps [simp del]
declare withImageRetry.simps [simp del]

section \<open>Credentials and the health check\<close>

text \<open>
  What the browser provides: \<open>navigator.onLine\<close>, the build-time variable
  \<open>import.meta.env.VITE_GEMINI_API_KEY\<close> and \<open>localStorage\<close>. A string is truthy
  when it is not empty.
\<close>

record env =
  onLine :: bool
  VITE_GEMINI_API_KEY :: "string option"
  localStorage :: "string \<rightharpoonup> string"

definition GEMINI_API_KEY :: string where
  "GEMINI_API_KEY = ''culinary_lens_gemini_key''"

definition API_KEY_NOT_CONFIGURED :: string where
  "API_KEY_NOT_CONFIGURED = ''Gemini API key not configured''"

definition truthy_string :: "string option \<Rightarrow> bool" where
  "truthy_string v = (case v of None \<Rightarrow> False | Some k \<Rightarrow> k \<noteq> [])"

definition resolveGeminiApiKey :: "env \<Rightarrow> thrown + string" where
  "resolveGeminiApiKey e =
     (let envKey = VITE_GEMINI_API_KEY e
      in if truthy_string envKey then Inr (case envKey of Some k \<Rightarrow> k | None \<Rightarrow> [])
         else
           (let storedKey = localStorage e GEMINI_API_KEY
            in if truthy_string storedKey then Inr (case storedKey of Some k \<Rightarrow> k | None \<Rightarrow> [])
               else Inl (Thrown (Some (API_KEY_NOT_CONFIGURED
                       @ ''. Please add your API key in Settings.'')))))"

text \<open>\<open>getAi\<close> builds the client from the resolved key; the client is the key here.\<close>

definition getAi :: "env \<Rightarrow> thrown + string" where
  "getAi e = resolveGeminiApiKey e"

definition checkOnlineStatus :: "env \<Rightarrow> session \<Rightarrow> bool \<times> session" where
  "checkOnlineStatus e s =
     (if sessionForceOffline s then (False, s)
      else
        (case resolveGeminiApiKey e of
           Inr k \<Rightarrow> (onLine e \<and> k \<noteq> [], s)
         | Inl err \<Rightarrow> (False, s)))"

definition resetHandshake :: "session \<Rightarrow> session" where
  "resetHandshake s = s\<lparr>sessionForceOffline := False\<rparr>"

section \<open>Numbers\<close>

text \<open>
  A JavaScript number is a binary64 value: \<open>NaN\<close>, an infinity, or a finite value,
  held as the rational it denotes (zero without its sign: the code never divides by a
  computed zero of either sign, its only divisors being array lengths). Arithmetic rounds
  as IEEE 754 does: \<open>fl x\<close> is the double nearest to the exact result \<open>x\<close>, ties to the
  even significand, with gradual underflow below \<open>2 powi (- 1022)\<close> and overflow to an infinity. A decimal literal of the source denotes the double nearest to it, so
  \<open>0.85\<close> is \<open>fl (85 / 100)\<close>.

  \<open>bitlen n\<close> is the number of binary digits of \<open>n\<close>, \<open>ilog2 x\<close> the exponent
  \<open>e\<close> of a positive \<open>x\<close> (\<open>2 powi e \<le> x < 2 powi (e + 1)\<close>), and \<open>quantum x\<close> the distance between
  neighbouring doubles at the magnitude of \<open>x\<close>.
\<close>

function bitlen :: "int \<Rightarrow> int" where
  "bitlen n = (if n \<le> 0 then 0 else 1 + bitlen (n div 2))"
  by pat_completeness auto
termination
  by (relation "measure nat") auto

declare bitlen.simps [simp del]

definition ilog2 :: "rat \<Rightarrow> int" where
  "ilog2 x =
     (case quotient_of x of
        (p, q) \<Rightarrow>
          (let d = bitlen p - bitlen q
           in if 2 powi d \<le> x then d else d - 1))"

definition round_half_even :: "rat \<Rightarrow> int" where
  "round_half_even y =
     (let f = \<lfloor>y\<rfloor>; r = y - of_int f
      in if r < 1 / 2 then f else if 1 / 2 < r then f + 1 else if even f then f else f + 1)"

definition quantum :: "rat \<Rightarrow> rat" where
  "quantum x = 2 powi (max (ilog2 \<bar>x\<bar>) (- 1022) - 52)"

datatype jsnum = NaN | PInf | NInf | Num rat

definition fl :: "rat \<Rightarrow> jsnum" where
  "fl x =
     (if x = 0 then Num 0
      else
        (let y = of_int (round_half_even (x / quantum x)) * quantum x
         in if y = 0 then Num 0
            else if 1024 \<le> ilog2 \<bar>y\<bar> then (if 0 < y then PInf else NInf)
            else Num y))"

fun js_neg :: "jsnum \<Rightarrow> jsnum" where
  "js_neg NaN = NaN"
| "js_neg PInf = NInf"
| "js_neg NInf = PInf"
| "js_neg (Num a) = Num (- a)"

fun js_add :: "jsnum \<Rightarrow> jsnum \<Rightarrow> jsnum" where
  "js_add NaN y = NaN"
| "js_add x NaN = NaN"
| "js_add (Num a) (Num b) = fl (a + b)"
| "js_add (Num a) y = y"
| "js_add x (Num b) = x"
| "js_add x y = (if x = y then x else NaN)"

definition js_sub :: "jsnum \<Rightarrow> jsnum \<Rightarrow> jsnum" where
  "js_sub x y = js_add x (js_neg y)"

fun js_mul :: "jsnum \<Rightarrow> jsnum \<Rightarrow> jsnum" where
  "js_mul NaN y = NaN"
| "js_mul x NaN = NaN"
| "js_mul (Num a) (Num b) = fl (a * b)"
| "js_mul (Num a) y = (if a = 0 then NaN else if 0 < a then y else js_neg y)"
| "js_mul x (Num b) = (if b = 0 then NaN else if 0 < b then x else js_neg x)"
| "js_mul x y = (if x = y then PInf else NInf)"

fun js_div :: "jsnum \<Rightarrow> jsnum \<Rightarrow> jsnum" where
  "js_div NaN y = NaN"
| "js_div x NaN = NaN"
| "js_div (Num a) (Num b) =
     (if b = 0 then (if a = 0 then NaN else if 0 < a then PInf else NInf) else fl (a / b))"
| "js_div (Num a) y = Num 0"
| "js_div x (Num b) = (if 0 \<le> b then x else js_neg x)"
| "js_div x y = NaN"

text \<open>
  \<open>Math.min\<close>, \<open>Math.max\<close> and \<open>Math.round\<close> are exact: \<open>Math.round\<close> returns
  the integer nearest to its argument, the larger one at a half.
\<close>

fun js_min :: "jsnum \<Rightarrow> jsnum \<Rightarrow> jsnum" where
  "js_min NaN y = NaN"
| "js_min x NaN = NaN"
| "js_min NInf y = NInf"
| "js_min x NInf = NInf"
| "js_min PInf y = y"
| "js_min x PInf = x"
| "js_min (Num a) (Num b) = Num (min a b)"

fun js_max :: "jsnum \<Rightarrow> jsnum \<Rightarrow> jsnum" where
  "js_max NaN y = NaN"
| "js_max x NaN = NaN"
| "js_max PInf y = PInf"
| "js_max x PInf = PInf"
| "js_max NInf y = y"
| "js_max x NInf = x"
| "js_max (Num a) (Num b) = Num (max a b)"

fun js_round :: "jsnum \<Rightarrow> jsnum" where
  "js_round (Num a) = Num (of_int \<lfloor>a + 1 / 2\<rfloor>)"
| "js_round x = x"

text \<open>Truthiness of a number, and \<open>x || y\<close>.\<close>

fun js_truthy :: "jsnum \<Rightarrow> bool" where
  "js_truthy NaN = False"
| "js_truthy (Num a) = (a \<noteq> 0)"
| "js_truthy x = True"

definition js_or :: "jsnum \<Rightarrow> jsnum \<Rightarrow> jsnum" where
  "js_or x y = (if js_truthy x then x else y)"

section \<open>Data model\<close>

datatype VerificationStatus = unverified | confirmed | dismissed

record Ingredient =
  ingredient_id :: string
  name :: string
  scientificName :: string
  category :: string
  mass_grams :: jsnum
  vitality_score :: jsnum
  expires_in_days :: jsnum
  confidence :: jsnum
  verificationStatus :: "VerificationStatus option"

record RecallHypothesis =
  hypothesis_name :: string
  justification :: string
  visualHint :: string
  hypothesis_confidence :: jsnum

record ProtocolStep =
  step_order :: jsnum
  instruction :: string
  technique :: string

text \<open>
  The fields of \<open>NeuralProtocol\<close> and \<open>UserPreferences\<close> that the modelled functions
  read or write; the other fields are carried along unchanged by the code.
\<close>

record NeuralProtocol =
  protocol_id :: string
  title :: string
  description :: string
  ingredients_used :: "string list"
  instructions :: "ProtocolStep list"
  groundingSources :: "string list"
  isOffline :: "bool option"

record UserPreferences =
  dietary :: string
  allergies :: "string list"
  confidenceMemory :: "(string \<rightharpoonup> jsnum) option"

text \<open>
  The part of a \<open>GenerateContentResponse\<close> that the service reads: \<open>response.text\<close>,
  the \<open>inlineData?.data\<close> of each part of the first candidate, and the
  \<open>web?.uri\<close> of each grounding chunk.
\<close>

record GenerateContentResponse =
  response_text :: "string option"
  inlineData :: "string option list"
  groundingUris :: "string option list"

section \<open>Composite confidence\<close>

text \<open>
  \<open>calculateCompositeConfidence\<close> reads the stored preferences
  (\<open>saved ? JSON.parse(saved) : {}\<close>, written by the application with
  \<open>JSON.stringify\<close>): \<open>saved\<close> is \<open>None\<close> when nothing is stored. The constants
  of the function body are one definition each. \<open>unicode\<close> is the case folding of the
  JavaScript engine on strings that are not pure ASCII (see \<open>toLowerCaseIn\<close>).
\<close>

definition memoryOf :: "UserPreferences option \<Rightarrow> (string \<rightharpoonup> jsnum)" where
  "memoryOf saved =
     (case saved of
        None \<Rightarrow> Map.empty
      | Some prefs \<Rightarrow> (case confidenceMemory prefs of None \<Rightarrow> Map.empty | Some m \<Rightarrow> m))"

text \<open>
  \<open>memory\<close> is an ordinary object, so \<open>memory[key]\<close> also finds the members that
  every object inherits from \<open>Object.prototype\<close>. Each of them is a function or an
  object: it is truthy and its product with a number is \<open>NaN\<close>. \<open>remembered\<close> is
  the numeric value of \<open>memory[key] || 0\<close>.
\<close>

definition objectPrototypeKeys :: "string list" where
  "objectPrototypeKeys =
     [''constructor'', ''__defineGetter__'', ''__defineSetter__'', ''hasOwnProperty'',
      ''__lookupGetter__'', ''__lookupSetter__'', ''isPrototypeOf'', ''propertyIsEnumerable'',
      ''toString'', ''valueOf'', ''__proto__'', ''toLocaleString'']"

definition remembered :: "(string \<rightharpoonup> jsnum) \<Rightarrow> string \<Rightarrow> jsnum" where
  "remembered memory key =
     (case memory key of
        Some v \<Rightarrow> js_or v (Num 0)
      | None \<Rightarrow> if key \<in> set objectPrototypeKeys then NaN else Num 0)"

text \<open>The value the reducer adds to the accumulator for one ingredient.\<close>

definition adjustedConfidence ::
  "(string \<Rightarrow> string) \<Rightarrow> (string \<rightharpoonup> jsnum) \<Rightarrow> Ingredient \<Rightarrow> jsnum" where
  "adjustedConfidence unicode memory cur =
     (let score = (if verificationStatus cur = Some confirmed
                   then js_max (confidence cur) (fl (85 / 100)) else confidence cur);
          bias = js_min (js_mul (remembered memory (toLowerCaseIn unicode (name cur)))
                                (fl (2 / 100)))
                        (fl (10 / 100))
      in js_min (js_add score bias) (Num 1))"

definition mlConfidenceSum ::
  "(string \<Rightarrow> string) \<Rightarrow> (string \<rightharpoonup> jsnum) \<Rightarrow> Ingredient list \<Rightarrow> jsnum" where
  "mlConfidenceSum unicode memory mlInventory =
     foldl (\<lambda>acc cur. js_add acc (adjustedConfidence unicode memory cur)) (Num 0) mlInventory"

definition mlConfidence ::
  "(string \<Rightarrow> string) \<Rightarrow> UserPreferences option \<Rightarrow> Ingredient list \<Rightarrow> jsnum" where
  "mlConfidence unicode saved mlInventory =
     js_or (js_div (mlConfidenceSum unicode (memoryOf saved) mlInventory)
                   (Num (of_nat (length mlInventory))))
           (Num 1)"

definition geminiCoherence :: "NeuralProtocol \<Rightarrow> jsnum" where
  "geminiCoherence protocol = (if length (instructions protocol) > 3 then Num 1 else fl (7 / 10))"

definition hallucinations :: "(string \<Rightarrow> string) \<Rightarrow> Ingredient list \<Rightarrow> NeuralProtocol \<Rightarrow> nat" where
  "hallucinations unicode mlInventory protocol =
     (let mlNames = set (map (\<lambda>i. toLowerCaseIn unicode (name i)) mlInventory)
      in length (filter (\<lambda>ing. toLowerCaseIn unicode ing \<notin> mlNames) (ingredients_used protocol)))"

definition constraintSatisfaction ::
  "(string \<Rightarrow> string) \<Rightarrow> Ingredient list \<Rightarrow> NeuralProtocol \<Rightarrow> jsnum" where
  "constraintSatisfaction unicode mlInventory protocol =
     js_max (Num 0)
       (js_sub (Num 1)
          (js_div (Num (of_nat (hallucinations unicode mlInventory protocol)))
                  (Num (of_nat (length (ingredients_used protocol))))))"

definition compositeScore :: "jsnum \<Rightarrow> jsnum \<Rightarrow> jsnum \<Rightarrow> jsnum" where
  "compositeScore ml gemini constraint =
     (let composite = js_add (js_add (js_mul (fl (5 / 10)) ml) (js_mul (fl (3 / 10)) gemini))
                             (js_mul (fl (2 / 10)) constraint)
      in js_round (js_mul composite (Num 100)))"

definition calculateCompositeConfidence ::
  "(string \<Rightarrow> string) \<Rightarrow> UserPreferences option \<Rightarrow> Ingredient list \<Rightarrow> NeuralProtocol \<Rightarrow> jsnum" where
  "calculateCompositeConfidence unicode saved mlInventory protocol =
     compositeScore (mlConfidence unicode saved mlInventory) (geminiCoherence protocol)
       (constraintSatisfaction unicode mlInventory protocol)"

section \<open>Stage operations of the service\<close>

text \<open>
  Collaborators that are not part of the service are parameters:
  \<^item> \<open>generateContent\<close>, the remote attempt of the operation (its prompt is built from
    the operation's arguments);
  \<^item> \<open>parse\<close>, \<open>JSON.parse\<close> at the result type of the operation (it throws on
    text that is not JSON of that shape); for \<open>synthesizeProtocol\<close> it is applied
    to \<open>response.text\<close> with the code fences removed, or to \<open>"{}"\<close> when there is
    no text;
  \<^item> \<open>randomId\<close>, the identifier drawn with \<open>Math.random\<close>;
  \<^item> \<open>fuseResults\<close> of \<open>fusion/pipeline\<close>, which may throw.
  A \<open>try\<close> block is a definition of its own, returning the thrown value on the left;
  the operation around it is the \<open>catch\<close>.
\<close>

text \<open>
  Modelled from the spec: \<open>synthesizeOfflineProtocol\<close> of \<open>services/offlineService\<close>
  is not among the sources. The specification describes it as a pure local generator
  that never fails, whose protocol is marked \<open>isOffline = true\<close>; \<open>offlineGenerator\<close>
  stands for the recipe it computes.
\<close>

definition synthesizeOfflineProtocol ::
  "(Ingredient list \<Rightarrow> UserPreferences \<Rightarrow> NeuralProtocol) \<Rightarrow> Ingredient list \<Rightarrow> UserPreferences
     \<Rightarrow> NeuralProtocol" where
  "synthesizeOfflineProtocol offlineGenerator ingredients preferences =
     (offlineGenerator ingredients preferences)\<lparr>isOffline := Some True\<rparr>"

definition truthyUris :: "string option list \<Rightarrow> string list" where
  "truthyUris chunks =
     concat (map (\<lambda>u. case u of None \<Rightarrow> [] | Some v \<Rightarrow> if v = [] then [] else [v]) chunks)"

definition synthesizeProtocol_try ::
  "env \<Rightarrow> GenerateContentResponse attempt \<Rightarrow> (string option \<Rightarrow> thrown + NeuralProtocol) \<Rightarrow> string
     \<Rightarrow> (Ingredient list \<Rightarrow> NeuralProtocol \<Rightarrow> thrown + NeuralProtocol)
     \<Rightarrow> Ingredient list \<Rightarrow> session \<Rightarrow> (thrown + NeuralProtocol) \<times> session" where
  "synthesizeProtocol_try e generateContent parse randomId fuseResults ingredients s =
     (case getAi e of
        Inl err \<Rightarrow> (Inl err, s)
      | Inr ai \<Rightarrow>
          (case withRetry generateContent 3 2000 s of
             (Inl err, s1) \<Rightarrow> (Inl err, s1)
           | (Inr response, s1) \<Rightarrow>
               (case parse (response_text response) of
                  Inl err \<Rightarrow> (Inl err, s1)
                | Inr rawProtocol \<Rightarrow>
                    (fuseResults ingredients
                       (rawProtocol\<lparr>protocol_id := randomId, isOffline := Some False,
                          groundingSources := truthyUris (groundingUris response)\<rparr>), s1))))"

definition synthesizeProtocol ::
  "env \<Rightarrow> GenerateContentResponse attempt \<Rightarrow> (string option \<Rightarrow> thrown + NeuralProtocol) \<Rightarrow> string
     \<Rightarrow> (Ingredient list \<Rightarrow> NeuralProtocol \<Rightarrow> thrown + NeuralProtocol)
     \<Rightarrow> (Ingredient list \<Rightarrow> UserPreferences \<Rightarrow> NeuralProtocol)
     \<Rightarrow> Ingredient list \<Rightarrow> UserPreferences \<Rightarrow> session \<Rightarrow> (thrown + NeuralProtocol) \<times> session" where
  "synthesizeProtocol e generateContent parse randomId fuseResults offlineGenerator
       ingredients preferences s =
     (case checkOnlineStatus e s of
        (online, s0) \<Rightarrow>
          if \<not> online
          then (Inr (synthesizeOfflineProtocol offlineGenerator ingredients preferences), s0)
          else
            (case synthesizeProtocol_try e generateContent parse randomId fuseResults ingredients s0 of
               (Inr protocol, s1) \<Rightarrow> (Inr protocol, s1)
             | (Inl err, s1) \<Rightarrow>
                 (Inr (synthesizeOfflineProtocol offlineGenerator ingredients preferences), s1)))"

definition textOr :: "string option \<Rightarrow> string \<Rightarrow> string" where
  "textOr t d = (case t of None \<Rightarrow> d | Some v \<Rightarrow> if v = [] then d else v)"

definition auditRecall_try ::
  "env \<Rightarrow> GenerateContentResponse attempt \<Rightarrow> (string \<Rightarrow> thrown + RecallHypothesis list)
     \<Rightarrow> session \<Rightarrow> (thrown + RecallHypothesis list) \<times> session" where
  "auditRecall_try e generateContent parse s =
     (case getAi e of
        Inl err \<Rightarrow> (Inl err, s)
      | Inr ai \<Rightarrow>
          (case withRetry generateContent 3 2000 s of
             (Inl err, s1) \<Rightarrow> (Inl err, s1)
           | (Inr response, s1) \<Rightarrow> (parse (textOr (response_text response) ''[]''), s1)))"

definition auditRecall ::
  "env \<Rightarrow> GenerateContentResponse attempt \<Rightarrow> (string \<Rightarrow> thrown + RecallHypothesis list)
     \<Rightarrow> Ingredient list \<Rightarrow> session \<Rightarrow> (thrown + RecallHypothesis list) \<times> session" where
  "auditRecall e generateContent parse ingredients s =
     (case checkOnlineStatus e s of
        (online, s0) \<Rightarrow>
          if \<not> online then (Inr [], s0)
          else
            (case auditRecall_try e generateContent parse s0 of
               (Inr hypotheses, s1) \<Rightarrow> (Inr hypotheses, s1)
             | (Inl err, s1) \<Rightarrow> (Inr [], s1)))"

definition refineManifestWithEnsemble_try ::
  "env \<Rightarrow> GenerateContentResponse attempt \<Rightarrow> (string \<Rightarrow> thrown + Ingredient list)
     \<Rightarrow> session \<Rightarrow> (thrown + Ingredient list) \<times> session" where
  "refineManifestWithEnsemble_try e generateContent parse s =
     (case getAi e of
        Inl err \<Rightarrow> (Inl err, s)
      | Inr ai \<Rightarrow>
          (case withRetry generateContent 3 2000 s of
             (Inl err, s1) \<Rightarrow> (Inl err, s1)
           | (Inr response, s1) \<Rightarrow> (parse (textOr (response_text response) ''[]''), s1)))"

definition refineManifestWithEnsemble ::
  "env \<Rightarrow> GenerateContentResponse attempt \<Rightarrow> (string \<Rightarrow> thrown + Ingredient list)
     \<Rightarrow> Ingredient list \<Rightarrow> session \<Rightarrow> (thrown + Ingredient list) \<times> session" where
  "refineManifestWithEnsemble e generateContent parse ingredients s =
     (case checkOnlineStatus e s of
        (online, s0) \<Rightarrow>
          if \<not> online then (Inr ingredients, s0)
          else
            (case refineManifestWithEnsemble_try e generateContent parse s0 of
               (Inr refined, s1) \<Rightarrow> (Inr refined, s1)
             | (Inl err, s1) \<Rightarrow> (Inr ingredients, s1)))"

text \<open>
  Image generation, as in \<open>src/services/geminiService.ts\<close>. The four operations
  differ in their prompt only, which is part of the remote attempt; the \<open>try\<close>
  block they share is \<open>generateImage_try\<close>.
\<close>

definition imageDataUrl :: "GenerateContentResponse \<Rightarrow> string" where
  "imageDataUrl response =
     (case find (\<lambda>p. truthy_string p) (inlineData response) of
        Some (Some d) \<Rightarrow> ''data:image/png;base64,'' @ d
      | _ \<Rightarrow> [])"

definition generateImage_try ::
  "env \<Rightarrow> GenerateContentResponse attempt \<Rightarrow> session \<Rightarrow> (thrown + string) \<times> session" where
  "generateImage_try e generateContent s =
     (case getAi e of
        Inl err \<Rightarrow> (Inl err, s)
      | Inr ai \<Rightarrow>
          (case withImageRetry generateContent 2 1000 s of
             (Inl err, s1) \<Rightarrow> (Inl err, s1)
           | (Inr response, s1) \<Rightarrow> (Inr (imageDataUrl response), s1)))"

definition generatePlatingVisual ::
  "env \<Rightarrow> GenerateContentResponse attempt \<Rightarrow> NeuralProtocol \<Rightarrow> session \<Rightarrow> (thrown + string) \<times> session" where
  "generatePlatingVisual e generateContent protocol s =
     (case checkOnlineStatus e s of
        (online, s0) \<Rightarrow>
          if \<not> online then (Inr [], s0)
          else
            (case generateImage_try e generateContent s0 of
               (Inr url, s1) \<Rightarrow> (Inr url, s1)
             | (Inl err, s1) \<Rightarrow> (Inr [], s1)))"

definition generateDrinkVisual ::
  "env \<Rightarrow> GenerateContentResponse attempt \<Rightarrow> string \<Rightarrow> session \<Rightarrow> (thrown + string) \<times> session" where
  "generateDrinkVisual e generateContent drinkName s =
     (case checkOnlineStatus e s of
        (online, s0) \<Rightarrow>
          if \<not> online then (Inr [], s0)
          else
            (case generateImage_try e generateContent s0 of
               (Inr url, s1) \<Rightarrow> (Inr url, s1)
             | (Inl err, s1) \<Rightarrow> (Inr [], s1)))"

definition generateIngredientVisual ::
  "env \<Rightarrow> GenerateContentResponse attempt \<Rightarrow> string \<Rightarrow> session \<Rightarrow> (thrown + string) \<times> session" where
  "generateIngredientVisual e generateContent ingredientName s =
     (case checkOnlineStatus e s of
        (online, s0) \<Rightarrow>
          if \<not> online then (Inr [], s0)
          else
            (case generateImage_try e generateContent s0 of
               (Inr url, s1) \<Rightarrow> (Inr url, s1)
             | (Inl err, s1) \<Rightarrow> (Inr [], s1)))"

definition generateSchematic ::
  "env \<Rightarrow> GenerateContentResponse attempt \<Rightarrow> NeuralProtocol \<Rightarrow> session \<Rightarrow> (thrown + string) \<times> session" where
  "generateSchematic e generateContent protocol s =
     (case checkOnlineStatus e s of
        (online, s0) \<Rightarrow>
          if \<not> online then (Inr [], s0)
          else
            (case generateImage_try e generateContent s0 of
               (Inr url, s1) \<Rightarrow> (Inr url, s1)
             | (Inl err, s1) \<Rightarrow> (Inr [], s1)))"

text \<open>
  The repository holds a second copy of the service, \<open>src/unnamed/part_001\<close>. Its
  \<open>withRetry\<close>, health check, reset and stage operations are those above, without
  the console diagnostics. It has no \<open>withImageRetry\<close>: its four image operations
  wrap their remote attempt in \<open>withRetry\<close>. They are the definitions with the
  suffix \<open>_part_001\<close>.
\<close>

definition generateImage_try_part_001 ::
  "env \<Rightarrow> GenerateContentResponse attempt \<Rightarrow> session \<Rightarrow> (thrown + string) \<times> session" where
  "generateImage_try_part_001 e generateContent s =
     (case getAi e of
        Inl err \<Rightarrow> (Inl err, s)
      | Inr ai \<Rightarrow>
          (case withRetry generateContent 3 2000 s of
             (Inl err, s1) \<Rightarrow> (Inl err, s1)
           | (Inr response, s1) \<Rightarrow> (Inr (imageDataUrl response), s1)))"

definition generatePlatingVisual_part_001 ::
  "env \<Rightarrow> GenerateContentResponse attempt \<Rightarrow> NeuralProtocol \<Rightarrow> session \<Rightarrow> (thrown + string) \<times> session" where
  "generatePlatingVisual_part_001 e generateContent protocol s =
     (case checkOnlineStatus e s of
        (online, s0) \<Rightarrow>
          if \<not> online then (Inr [], s0)
          else
            (case generateImage_try_part_001 e generateContent s0 of
               (Inr url, s1) \<Rightarrow> (Inr url, s1)
             | (Inl err, s1) \<Rightarrow> (Inr [], s1)))"

definition generateDrinkVisual_part_001 ::
  "env \<Rightarrow> GenerateContentResponse attempt \<Rightarrow> string \<Rightarrow> session \<Rightarrow> (thrown + string) \<times> session" where
  "generateDrinkVisual_part_001 e generateContent drinkName s =
     (case checkOnlineStatus e s of
        (online, s0) \<Rightarrow>
          if \<not> online then (Inr [], s0)
          else
            (case generateImage_try_part_001 e generateContent s0 of
               (Inr url, s1) \<Rightarrow> (Inr url, s1)
             | (Inl err, s1) \<Rightarrow> (Inr [], s1)))"

definition generateIngredientVisual_part_001 ::
  "env \<Rightarrow> GenerateContentResponse attempt \<Rightarrow> string \<Rightarrow> session \<Rightarrow> (thrown + string) \<times> session" where
  "generateIngredientVisual_part_001 e generateContent ingredientName s =
     (case checkOnlineStatus e s of
        (online, s0) \<Rightarrow>
          if \<not> online then (Inr [], s0)
          else
            (case generateImage_try_part_001 e generateContent s0 of
               (Inr url, s1) \<Rightarrow> (Inr url, s1)
             | (Inl err, s1) \<Rightarrow> (Inr [], s1)))"

definition generateSchematic_part_001 ::
  "env \<Rightarrow> GenerateContentResponse attempt \<Rightarrow> NeuralProtocol \<Rightarrow> session \<Rightarrow> (thrown + string) \<times> session" where
  "generateSchematic_part_001 e generateContent protocol s =
     (case checkOnlineStatus e s of
        (online, s0) \<Rightarrow>
          if \<not> online then (Inr [], s0)
          else
            (case generateImage_try_part_001 e generateContent s0 of
               (Inr url, s1) \<Rightarrow> (Inr url, s1)
             | (Inl err, s1) \<Rightarrow> (Inr [], s1)))"

section \<open>Derived notions used in the statements\<close>

text \<open>A wrapper result that is a failure whose message is classified as quota exceeded.\<close>

definition ends_in_quota :: "(thrown + 'r) \<Rightarrow> bool" where
  "ends_in_quota r = (case r of Inl err \<Rightarrow> isQuotaExceeded (errorMsg err) | Inr v \<Rightarrow> False)"

definition failed :: "(thrown + 'r) \<Rightarrow> bool" where
  "failed r = (case r of Inl err \<Rightarrow> True | Inr v \<Rightarrow> False)"

text \<open>A credential is present when \<open>resolveGeminiApiKey\<close> returns instead of throwing.\<close>

definition credentialPresent :: "env \<Rightarrow> bool" where
  "credentialPresent e = (\<not> failed (resolveGeminiApiKey e))"

text \<open>
  The domain of the data model: a confidence in \<open>[0,1]\<close>, and a confirmation memory
  that holds a count (finite and not negative) under a key or, for a key that is not a
  member of \<open>Object.prototype\<close>, nothing.
\<close>

definition unit_confidence :: "Ingredient \<Rightarrow> bool" where
  "unit_confidence i = (case confidence i of Num c \<Rightarrow> 0 \<le> c \<and> c \<le> 1 | _ \<Rightarrow> False)"

definition count_memory :: "(string \<rightharpoonup> jsnum) \<Rightarrow> string \<Rightarrow> bool" where
  "count_memory memory k =
     (case memory k of
        None \<Rightarrow> k \<notin> set objectPrototypeKeys
      | Some (Num m) \<Rightarrow> 0 \<le> m
      | Some _ \<Rightarrow> False)"

text \<open>
  The operations of the service that do not call \<open>resetHandshake\<close>, as a session may
  issue them one after the other: the health check, any operation wrapped in
  \<open>withRetry\<close> or \<open>withImageRetry\<close> with the default budget, and the stage
  operations above. \<open>run_ops\<close> runs a list of them from left to right and keeps the
  session.
\<close>

datatype session_op =
    Op_checkOnlineStatus env
  | Op_withRetry "GenerateContentResponse attempt"
  | Op_withImageRetry "GenerateContentResponse attempt"
  | Op_synthesizeProtocol env "GenerateContentResponse attempt"
      "string option \<Rightarrow> thrown + NeuralProtocol" string
      "Ingredient list \<Rightarrow> NeuralProtocol \<Rightarrow> thrown + NeuralProtocol"
      "Ingredient list \<Rightarrow> UserPreferences \<Rightarrow> NeuralProtocol" "Ingredient list" UserPreferences
  | Op_auditRecall env "GenerateContentResponse attempt"
      "string \<Rightarrow> thrown + RecallHypothesis list" "Ingredient list"
  | Op_refineManifestWithEnsemble env "GenerateContentResponse attempt"
      "string \<Rightarrow> thrown + Ingredient list" "Ingredient list"
  | Op_generatePlatingVisual env "GenerateContentResponse attempt" NeuralProtocol
  | Op_generateDrinkVisual env "GenerateContentResponse attempt" string
  | Op_generateIngredientVisual env "GenerateContentResponse attempt" string
  | Op_generateSchematic env "GenerateContentResponse attempt" NeuralProtocol

fun run_op :: "session_op \<Rightarrow> session \<Rightarrow> session" where
  "run_op (Op_checkOnlineStatus e) s = snd (checkOnlineStatus e s)"
| "run_op (Op_withRetry fn) s = snd (withRetry fn 3 2000 s)"
| "run_op (Op_withImageRetry fn) s = snd (withImageRetry fn 2 1000 s)"
| "run_op (Op_synthesizeProtocol e fn parse randomId fuseResults offlineGenerator ingredients preferences) s =
     snd (synthesizeProtocol e fn parse randomId fuseResults offlineGenerator ingredients preferences s)"
| "run_op (Op_auditRecall e fn parse ingredients) s = snd (auditRecall e fn parse ingredients s)"
| "run_op (Op_refineManifestWithEnsemble e fn parse ingredients) s =
     snd (refineManifestWithEnsemble e fn parse ingredients s)"
| "run_op (Op_generatePlatingVisual e fn protocol) s = snd (generatePlatingVisual e fn protocol s)"
| "run_op (Op_generateDrinkVisual e fn drinkName) s = snd (generateDrinkVisual e fn drinkName s)"
| "run_op (Op_generateIngredientVisual e fn ingredientName) s =
     snd (generateIngredientVisual e fn ingredientName s)"
| "run_op (Op_generateSchematic e fn protocol) s = snd (generateSchematic e fn protocol s)"

definition run_ops :: "session_op list \<Rightarrow> session \<Rightarrow> session" where
  "run_ops ops s = foldl (\<lambda>s' op. run_op op s') s ops"

section \<open>Example inputs\<close>

text \<open>Concrete inputs at which the theorems below are instantiated.\<close>

definition fresh_session :: session where
  "fresh_session = \<lparr>sessionForceOffline = False, calls = 0, slept = []\<rparr>"

definition online_env :: env where
  "online_env = \<lparr>onLine = True, VITE_GEMINI_API_KEY = Some ''key'', localStorage = Map.empty\<rparr>"

definition quota_error :: thrown where
  "quota_error = Thrown (Some ''429 RESOURCE_EXHAUSTED: Quota exceeded'')"

definition server_error :: thrown where
  "server_error = Thrown (Some ''500 Internal Server Error'')"

definition empty_response :: GenerateContentResponse where
  "empty_response = \<lparr>response_text = None, inlineData = [], groundingUris = []\<rparr>"

text \<open>A remote that always throws the quota error, and one that throws two server errors
  before the quota error.\<close>

definition always_quota :: "GenerateContentResponse attempt" where
  "always_quota k = Inl quota_error"

definition quota_after_two :: "GenerateContentResponse attempt" where
  "quota_after_two k = (if k < 2 then Inl server_error else Inl quota_error)"

text \<open>
  An unconfirmed ingredient \<open>tomato\<close> whose confidence is written as the decimal
  literal \<open>c\<close>, and a second ingredient.
\<close>

definition tomato :: "rat \<Rightarrow> Ingredient" where
  "tomato c = \<lparr>ingredient_id = ''i1'', name = ''tomato'', scientificName = ''Solanum lycopersicum'',
     category = ''vegetable'', mass_grams = Num 120, vitality_score = Num 90,
     expires_in_days = Num 5, confidence = fl c, verificationStatus = None\<rparr>"

definition basil :: "rat \<Rightarrow> Ingredient" where
  "basil c = \<lparr>ingredient_id = ''i2'', name = ''Basil'', scientificName = ''Ocimum basilicum'',
     category = ''herb'', mass_grams = Num 20, vitality_score = Num 80,
     expires_in_days = Num 2, confidence = fl c, verificationStatus = None\<rparr>"

text \<open>Stored preferences whose memory holds \<open>n\<close> confirmations of \<open>tomato\<close>.\<close>

definition remembers_tomato :: "rat \<Rightarrow> UserPreferences option" where
  "remembers_tomato n =
     Some \<lparr>dietary = ''None'', allergies = [],
           confidenceMemory = Some (Map.empty(''tomato'' \<mapsto> Num n))\<rparr>"

text \<open>A folding for the strings that are not pure ASCII; no example consults it.\<close>

definition unicode_unchanged :: "string \<Rightarrow> string" where
  "unicode_unchanged s = s"

text \<open>
  The folding of the letters of Latin-1 (\<open>A\<close> to \<open>Z\<close>, and the accented capitals
  192 to 222 apart from the multiplication sign), for an example with a name that is not
  pure ASCII.
\<close>

definition fold_latin1 :: "string \<Rightarrow> string" where
  "fold_latin1 s =
     map (\<lambda>c. let n = (of_char c :: nat)
              in if (65 \<le> n \<and> n \<le> 90) \<or> (192 \<le> n \<and> n \<le> 222 \<and> n \<noteq> 215)
                 then char_of (n + 32) else c) s"

definition a_step :: ProtocolStep where
  "a_step = \<lparr>step_order = Num 1, instruction = ''slice'', technique = ''knife work''\<rparr>"

definition a_protocol :: "string list \<Rightarrow> nat \<Rightarrow> NeuralProtocol" where
  "a_protocol used n = \<lparr>protocol_id = ''p1'', title = ''salad'', description = ''a salad'',
     ingredients_used = used, instructions = replicate n a_step, groundingSources = [],
     isOffline = Some False\<rparr>"

definition no_preferences :: UserPreferences where
  "no_preferences = \<lparr>dietary = ''None'', allergies = [], confidenceMemory = None\<rparr>"

text \<open>Collaborators of the stage operations: parsers, the fusion step, an offline recipe.\<close>

definition parse_none :: "string \<Rightarrow> thrown + 'a list" where
  "parse_none t = Inr []"

definition parse_salad :: "string option \<Rightarrow> thrown + NeuralProtocol" where
  "parse_salad t = Inr (a_protocol [''tomato''] 5)"

definition fuse_unchanged :: "Ingredient list \<Rightarrow> NeuralProtocol \<Rightarrow> thrown + NeuralProtocol" where
  "fuse_unchanged ingredients protocol = Inr protocol"

definition offline_salad :: "Ingredient list \<Rightarrow> UserPreferences \<Rightarrow> NeuralProtocol" where
  "offline_salad ingredients preferences = a_protocol (map name ingredients) 2"

definition always_server_error :: "GenerateContentResponse attempt" where
  "always_server_error k = Inl server_error"

definition always_empty_response :: "GenerateContentResponse attempt" where
  "always_empty_response k = Inr empty_response"

definition offline_env :: env where
  "offline_env = online_env\<lparr>onLine := False\<rparr>"

section \<open>The retry wrappers\<close>

lemma withImageRetry_latch:
  "sessionForceOffline (snd (withImageRetry fn retries delay s)) = sessionForceOffline s"
proof (induction fn retries delay s rule: withImageRetry.induct)
  case (1 fn retries delay s)
  show ?case
  proof (cases "fn (calls s)")
    case (Inr v)
    then show ?thesis by (subst withImageRetry.simps) simp
  next
    case (Inl err)
    show ?thesis
    proof (cases "isTransientImage (errorMsg err) \<and> retries > 0")
      case True
      with Inl 1 show ?thesis by (subst withImageRetry.simps) (simp add: Let_def)
    next
      case False
      with Inl show ?thesis by (subst withImageRetry.simps) (auto simp add: Let_def)
    qed
  qed
qed

lemma withRetry_latched:
  "sessionForceOffline s \<Longrightarrow>
     withRetry fn retries delay s = (Inl (Thrown (Some ''SESSION_OFFLINE_FAILOVER'')), s)"
  by (subst withRetry.simps) simp

lemma withRetry_success:
  "\<not> sessionForceOffline s \<Longrightarrow> fn (calls s) = Inr v \<Longrightarrow>
     withRetry fn retries delay s = (Inr v, s\<lparr>calls := Suc (calls s)\<rparr>)"
  by (subst withRetry.simps) simp

lemma withRetry_quota:
  "\<not> sessionForceOffline s \<Longrightarrow> fn (calls s) = Inl err \<Longrightarrow> isQuotaExceeded (errorMsg err) \<Longrightarrow>
     withRetry fn retries delay s =
       (Inl err, s\<lparr>calls := Suc (calls s), sessionForceOffline := True\<rparr>)"
  by (subst withRetry.simps) (simp add: Let_def)

lemma withRetry_retry:
  "\<not> sessionForceOffline s \<Longrightarrow> fn (calls s) = Inl err \<Longrightarrow> \<not> isQuotaExceeded (errorMsg err) \<Longrightarrow>
   isTransient (errorMsg err) \<Longrightarrow> 0 < retries \<Longrightarrow>
     withRetry fn retries delay s =
       withRetry fn (retries - 1) (delay * 2)
         (s\<lparr>calls := Suc (calls s), slept := slept s @ [delay]\<rparr>)"
  by (subst withRetry.simps) (simp add: Let_def)

lemma withRetry_give_up:
  "\<not> sessionForceOffline s \<Longrightarrow> fn (calls s) = Inl err \<Longrightarrow> \<not> isQuotaExceeded (errorMsg err) \<Longrightarrow>
   \<not> isTransient (errorMsg err) \<or> retries = 0 \<Longrightarrow>
     withRetry fn retries delay s = (Inl err, s\<lparr>calls := Suc (calls s)\<rparr>)"
  by (subst withRetry.simps) (auto simp add: Let_def)

text \<open>The latch after a critical call: set before, or set by a quota failure.\<close>

lemma withRetry_latch:
  "sessionForceOffline (snd (withRetry fn retries delay s)) =
     (sessionForceOffline s \<or> ends_in_quota (fst (withRetry fn retries delay s)))"
proof (induction fn retries delay s rule: withRetry.induct)
  case (1 fn retries delay s)
  show ?case
  proof (cases "sessionForceOffline s")
    case True
    then show ?thesis by (simp add: withRetry_latched)
  next
    case off: False
    show ?thesis
    proof (cases "fn (calls s)")
      case (Inr v)
      with off show ?thesis by (simp add: withRetry_success ends_in_quota_def)
    next
      case (Inl err)
      show ?thesis
      proof (cases "isQuotaExceeded (errorMsg err)")
        case True
        with off Inl show ?thesis by (simp add: withRetry_quota ends_in_quota_def)
      next
        case nq: False
        show ?thesis
        proof (cases "isTransient (errorMsg err) \<and> 0 < retries")
          case True
          with off Inl nq 1 show ?thesis by (simp add: withRetry_retry)
        next
          case False
          with off Inl nq show ?thesis by (simp add: withRetry_give_up ends_in_quota_def)
        qed
      qed
    qed
  qed
qed

text \<open>
  The trace of a critical call that starts with the latch clear: at least one and at most
  \<open>retries + 1\<close> attempts, and before the \<open>i\<close>-th retry a wait of \<open>delay * 2 ^ i\<close>.
\<close>

lemma withRetry_trace:
  "\<not> sessionForceOffline s \<Longrightarrow>
     calls s < calls (snd (withRetry fn retries delay s)) \<and>
     calls (snd (withRetry fn retries delay s)) \<le> calls s + retries + 1 \<and>
     slept (snd (withRetry fn retries delay s)) =
       slept s @ map (\<lambda>i. delay * 2 ^ i)
                   [0..<calls (snd (withRetry fn retries delay s)) - Suc (calls s)]"
proof (induction fn retries delay s rule: withRetry.induct)
  case (1 fn retries delay s)
  note off = \<open>\<not> sessionForceOffline s\<close>
  show ?case
  proof (cases "fn (calls s)")
    case (Inr v)
    with off show ?thesis by (simp add: withRetry_success)
  next
    case (Inl err)
    show ?thesis
    proof (cases "isQuotaExceeded (errorMsg err)")
      case True
      with off Inl show ?thesis by (simp add: withRetry_quota)
    next
      case nq: False
      show ?thesis
      proof (cases "isTransient (errorMsg err) \<and> 0 < retries")
        case True
        let ?s' = "s\<lparr>calls := Suc (calls s), slept := slept s @ [delay]\<rparr>"
        let ?r = "withRetry fn (retries - 1) (delay * 2) ?s'"
        have eq: "withRetry fn retries delay s = ?r"
          using off Inl nq True by (simp add: withRetry_retry)
        have ih: "calls ?s' < calls (snd ?r) \<and> calls (snd ?r) \<le> calls ?s' + (retries - 1) + 1 \<and>
          slept (snd ?r) =
            slept ?s' @ map (\<lambda>i. delay * 2 * 2 ^ i) [0..<calls (snd ?r) - Suc (calls ?s')]"
          using "1.IH"[of err "s\<lparr>calls := Suc (calls s)\<rparr>" "s\<lparr>calls := Suc (calls s)\<rparr>"]
            off Inl nq True
          by simp
        obtain k where k: "calls (snd ?r) - Suc (calls s) = Suc k"
            "calls (snd ?r) - Suc (Suc (calls s)) = k"
          using ih by (cases "calls (snd ?r) - Suc (calls s)") auto
        have "map (\<lambda>i. delay * 2 ^ i) [0..<Suc k] = delay # map (\<lambda>i. delay * 2 * 2 ^ i) [0..<k]"
          by (simp add: upt_rec[of 0] map_Suc_upt[symmetric] del: upt_Suc)
        with ih k True show ?thesis unfolding eq by simp
      next
        case False
        with off Inl nq show ?thesis by (simp add: withRetry_give_up)
      qed
    qed
  qed
qed

section \<open>The health check\<close>

lemma credentialPresent_iff:
  "credentialPresent e =
     (truthy_string (VITE_GEMINI_API_KEY e) \<or> truthy_string (localStorage e GEMINI_API_KEY))"
  by (simp add: credentialPresent_def failed_def resolveGeminiApiKey_def Let_def)

lemma resolved_key_truthy: "resolveGeminiApiKey e = Inr k \<Longrightarrow> k \<noteq> []"
  by (auto simp add: resolveGeminiApiKey_def Let_def truthy_string_def
      split: if_splits option.splits)

lemma checkOnlineStatus_eq:
  "checkOnlineStatus e s = ((onLine e \<and> credentialPresent e) \<and> \<not> sessionForceOffline s, s)"
  by (auto simp add: checkOnlineStatus_def credentialPresent_def failed_def
      dest: resolved_key_truthy split: sum.splits)

lemma getAi_online: "fst (checkOnlineStatus e s) \<Longrightarrow> \<exists>ai. getAi e = Inr ai"
  by (cases "resolveGeminiApiKey e")
     (simp_all add: checkOnlineStatus_eq credentialPresent_def failed_def getAi_def)

section \<open>The asset path\<close>

lemma generateImage_try_latch:
  "sessionForceOffline (snd (generateImage_try e fn s)) = sessionForceOffline s"
proof (cases "withImageRetry fn 2 1000 s")
  case (Pair r s1)
  with withImageRetry_latch[of fn 2 1000 s] have "sessionForceOffline s1 = sessionForceOffline s"
    by simp
  with Pair show ?thesis
    by (simp add: generateImage_try_def split: sum.splits)
qed

lemma image_catch_latch:
  "sessionForceOffline
     (snd (case checkOnlineStatus e s of
             (online, s0) \<Rightarrow>
               if \<not> online then (Inr [], s0)
               else (case generateImage_try e fn s0 of
                       (Inr url, s1) \<Rightarrow> (Inr url, s1)
                     | (Inl err, s1) \<Rightarrow> (Inr [], s1)))) = sessionForceOffline s"
proof (cases "generateImage_try e fn s")
  case (Pair r s1)
  with generateImage_try_latch[of e fn s] have "sessionForceOffline s1 = sessionForceOffline s"
    by simp
  with Pair show ?thesis
    by (simp add: checkOnlineStatus_eq split: sum.splits)
qed

lemma checkOnlineStatus_cong_latch:
  "sessionForceOffline s' = sessionForceOffline s \<Longrightarrow>
     fst (checkOnlineStatus e s') = fst (checkOnlineStatus e s)"
  by (simp add: checkOnlineStatus_eq)

text \<open>
  In \<open>src/services/geminiService.ts\<close> no call on the asset path changes the failover
  latch, whatever the wrapped attempt throws (a quota error included): after
  \<open>withImageRetry\<close> and after each of the four image operations,
  \<open>sessionForceOffline\<close> has the value it had before, and so \<open>checkOnlineStatus\<close>
  answers as before in every environment.
\<close>

lemma asset_path_never_latches:
  "sessionForceOffline (snd (withImageRetry fn retries delay s)) = sessionForceOffline s
   \<and> sessionForceOffline (snd (generatePlatingVisual e fn protocol s)) = sessionForceOffline s
   \<and> sessionForceOffline (snd (generateDrinkVisual e fn drinkName s)) = sessionForceOffline s
   \<and> sessionForceOffline (snd (generateIngredientVisual e fn ingredientName s)) = sessionForceOffline s
   \<and> sessionForceOffline (snd (generateSchematic e fn protocol s)) = sessionForceOffline s
   \<and> fst (checkOnlineStatus e' (snd (withImageRetry fn retries delay s))) = fst (checkOnlineStatus e' s)
   \<and> fst (checkOnlineStatus e' (snd (generatePlatingVisual e fn protocol s))) = fst (checkOnlineStatus e' s)
   \<and> fst (checkOnlineStatus e' (snd (generateDrinkVisual e fn drinkName s))) = fst (checkOnlineStatus e' s)
   \<and> fst (checkOnlineStatus e' (snd (generateIngredientVisual e fn ingredientName s))) = fst (checkOnlineStatus e' s)
   \<and> fst (checkOnlineStatus e' (snd (generateSchematic e fn protocol s))) = fst (checkOnlineStatus e' s)"
proof -
  have w: "sessionForceOffline (snd (withImageRetry fn retries delay s)) = sessionForceOffline s"
    by (rule withImageRetry_latch)
  have p: "sessionForceOffline (snd (generatePlatingVisual e fn protocol s)) = sessionForceOffline s"
    unfolding generatePlatingVisual_def by (rule image_catch_latch)
  have d: "sessionForceOffline (snd (generateDrinkVisual e fn drinkName s)) = sessionForceOffline s"
    unfolding generateDrinkVisual_def by (rule image_catch_latch)
  have i: "sessionForceOffline (snd (generateIngredientVisual e fn ingredientName s)) = sessionForceOffline s"
    unfolding generateIngredientVisual_def by (rule image_catch_latch)
  have c: "sessionForceOffline (snd (generateSchematic e fn protocol s)) = sessionForceOffline s"
    unfolding generateSchematic_def by (rule image_catch_latch)
  show ?thesis
    by (intro conjI w p d i c checkOnlineStatus_cong_latch)
qed

text \<open>An image request that meets the quota error on every attempt, in an online session.\<close>

lemma asset_path_never_latches_example:
  "generatePlatingVisual online_env always_quota (a_protocol [] 5) fresh_session =
     (Inr [], \<lparr>sessionForceOffline = False, calls = 1, slept = []\<rparr>)
   \<and> \<not> sessionForceOffline
         (snd (generatePlatingVisual online_env always_quota (a_protocol [] 5) fresh_session))
   \<and> fst (checkOnlineStatus online_env
         (snd (generatePlatingVisual online_env always_quota (a_protocol [] 5) fresh_session)))"
proof -
  have run: "generatePlatingVisual online_env always_quota (a_protocol [] 5) fresh_session =
      (Inr [], \<lparr>sessionForceOffline = False, calls = 1, slept = []\<rparr>)"
    by code_simp
  have before: "\<not> sessionForceOffline fresh_session" "fst (checkOnlineStatus online_env fresh_session)"
    by code_simp+
  show ?thesis
    using run before
      asset_path_never_latches[of always_quota 2 1000 fresh_session online_env "a_protocol [] 5"
        "[]" "[]" online_env]
    by simp
qed

section \<open>The critical path\<close>

lemma withRetry_keeps_latch:
  "sessionForceOffline s \<Longrightarrow> sessionForceOffline (snd (withRetry fn retries delay s))"
  by (simp add: withRetry_latched)

text \<open>The three stages built on the critical wrapper.\<close>

lemma synthesizeProtocol_offline:
  "\<not> fst (checkOnlineStatus e s) \<Longrightarrow>
     synthesizeProtocol e fn parse randomId fuseResults offlineGenerator ingredients preferences s =
       (Inr (synthesizeOfflineProtocol offlineGenerator ingredients preferences), s)"
  by (simp add: synthesizeProtocol_def checkOnlineStatus_eq)

lemma synthesizeProtocol_online:
  assumes "fst (checkOnlineStatus e s)"
  shows "synthesizeProtocol e fn parse randomId fuseResults offlineGenerator ingredients preferences s =
       (Inr (case fst (synthesizeProtocol_try e fn parse randomId fuseResults ingredients s) of
               Inr protocol \<Rightarrow> protocol
             | Inl err \<Rightarrow> synthesizeOfflineProtocol offlineGenerator ingredients preferences),
        snd (withRetry fn 3 2000 s))"
proof -
  obtain ai where ai: "getAi e = Inr ai"
    using getAi_online[OF assms] by blast
  obtain r s1 where w: "withRetry fn 3 2000 s = (r, s1)"
    by (cases "withRetry fn 3 2000 s")
  show ?thesis
    using assms ai w
    by (simp add: synthesizeProtocol_def synthesizeProtocol_try_def checkOnlineStatus_eq
        split: sum.splits)
qed

lemma synthesizeProtocol_try_failed:
  "failed (fst (withRetry fn 3 2000 s)) \<Longrightarrow>
     failed (fst (synthesizeProtocol_try e fn parse randomId fuseResults ingredients s))"
  by (cases "withRetry fn 3 2000 s")
     (simp add: synthesizeProtocol_try_def failed_def split: sum.splits)

lemma auditRecall_offline:
  "\<not> fst (checkOnlineStatus e s) \<Longrightarrow> auditRecall e fn parse ingredients s = (Inr [], s)"
  by (simp add: auditRecall_def checkOnlineStatus_eq)

lemma auditRecall_online:
  assumes "fst (checkOnlineStatus e s)"
  shows "auditRecall e fn parse ingredients s =
       (Inr (case fst (auditRecall_try e fn parse s) of
               Inr hypotheses \<Rightarrow> hypotheses | Inl err \<Rightarrow> []),
        snd (withRetry fn 3 2000 s))"
proof -
  obtain ai where ai: "getAi e = Inr ai"
    using getAi_online[OF assms] by blast
  obtain r s1 where w: "withRetry fn 3 2000 s = (r, s1)"
    by (cases "withRetry fn 3 2000 s")
  show ?thesis
    using assms ai w
    by (simp add: auditRecall_def auditRecall_try_def checkOnlineStatus_eq split: sum.splits)
qed

lemma auditRecall_try_failed:
  "failed (fst (withRetry fn 3 2000 s)) \<Longrightarrow> failed (fst (auditRecall_try e fn parse s))"
  by (cases "withRetry fn 3 2000 s")
     (simp add: auditRecall_try_def failed_def split: sum.splits)

lemma refineManifestWithEnsemble_offline:
  "\<not> fst (checkOnlineStatus e s) \<Longrightarrow>
     refineManifestWithEnsemble e fn parse ingredients s = (Inr ingredients, s)"
  by (simp add: refineManifestWithEnsemble_def checkOnlineStatus_eq)

lemma refineManifestWithEnsemble_online:
  assumes "fst (checkOnlineStatus e s)"
  shows "refineManifestWithEnsemble e fn parse ingredients s =
       (Inr (case fst (refineManifestWithEnsemble_try e fn parse s) of
               Inr refined \<Rightarrow> refined | Inl err \<Rightarrow> ingredients),
        snd (withRetry fn 3 2000 s))"
proof -
  obtain ai where ai: "getAi e = Inr ai"
    using getAi_online[OF assms] by blast
  obtain r s1 where w: "withRetry fn 3 2000 s = (r, s1)"
    by (cases "withRetry fn 3 2000 s")
  show ?thesis
    using assms ai w
    by (simp add: refineManifestWithEnsemble_def refineManifestWithEnsemble_try_def
        checkOnlineStatus_eq split: sum.splits)
qed

lemma refineManifestWithEnsemble_try_failed:
  "failed (fst (withRetry fn 3 2000 s)) \<Longrightarrow>
     failed (fst (refineManifestWithEnsemble_try e fn parse s))"
  by (cases "withRetry fn 3 2000 s")
     (simp add: refineManifestWithEnsemble_try_def failed_def split: sum.splits)

lemma online_not_latched: "fst (checkOnlineStatus e s) \<Longrightarrow> \<not> sessionForceOffline s"
  by (simp add: checkOnlineStatus_eq)

lemma synthesizeProtocol_latch:
  "sessionForceOffline
     (snd (synthesizeProtocol e fn parse randomId fuseResults offlineGenerator ingredients preferences s)) =
   (sessionForceOffline s \<or>
    fst (checkOnlineStatus e s) \<and> ends_in_quota (fst (withRetry fn 3 2000 s)))"
proof (cases "fst (checkOnlineStatus e s)")
  case True
  then show ?thesis
    by (simp add: synthesizeProtocol_online withRetry_latch online_not_latched)
next
  case False
  then show ?thesis by (simp add: synthesizeProtocol_offline)
qed

lemma auditRecall_latch:
  "sessionForceOffline (snd (auditRecall e fn parse ingredients s)) =
   (sessionForceOffline s \<or>
    fst (checkOnlineStatus e s) \<and> ends_in_quota (fst (withRetry fn 3 2000 s)))"
proof (cases "fst (checkOnlineStatus e s)")
  case True
  then show ?thesis
    by (simp add: auditRecall_online withRetry_latch online_not_latched)
next
  case False
  then show ?thesis by (simp add: auditRecall_offline)
qed

lemma refineManifestWithEnsemble_latch:
  "sessionForceOffline (snd (refineManifestWithEnsemble e fn parse ingredients s)) =
   (sessionForceOffline s \<or>
    fst (checkOnlineStatus e s) \<and> ends_in_quota (fst (withRetry fn 3 2000 s)))"
proof (cases "fst (checkOnlineStatus e s)")
  case True
  then show ?thesis
    by (simp add: refineManifestWithEnsemble_online withRetry_latch online_not_latched)
next
  case False
  then show ?thesis by (simp add: refineManifestWithEnsemble_offline)
qed

lemma run_op_keeps_latch: "sessionForceOffline s \<Longrightarrow> sessionForceOffline (run_op op s)"
  by (cases op)
     (simp_all add: checkOnlineStatus_eq withRetry_keeps_latch withImageRetry_latch
        synthesizeProtocol_latch auditRecall_latch refineManifestWithEnsemble_latch
        generatePlatingVisual_def generateDrinkVisual_def generateIngredientVisual_def
        generateSchematic_def image_catch_latch)

lemma run_ops_keeps_latch: "sessionForceOffline s \<Longrightarrow> sessionForceOffline (run_ops ops s)"
  unfolding run_ops_def
  by (induction ops arbitrary: s) (simp_all add: run_op_keeps_latch)

lemma run_ops_critical_latched:
  "sessionForceOffline s \<Longrightarrow> run_ops (map Op_withRetry fns) s = s"
  unfolding run_ops_def
  by (induction fns) (simp_all add: withRetry_latched)

text \<open>
  C2. \<open>withRetry\<close> is the critical retry policy. With the latch set it fails at once
  with \<open>SESSION_OFFLINE_FAILOVER\<close> and leaves the session as it was (no attempt is
  made), and so does every later critical call. With the latch clear: a success is
  returned; a quota failure sets the latch and is thrown without a retry; a transient
  failure that is not a quota failure, with retries left, waits \<open>delay\<close> and runs
  the wrapper again with one retry less and twice the delay; any other failure is thrown
  at once. A call that starts with the latch clear makes between one and
  \<open>retries + 1\<close> attempts and waits \<open>delay\<close>, \<open>2 * delay\<close>, \<open>4 * delay\<close>, ...
  between them; the latch is set afterwards exactly when it was set before or the call
  ended in a quota failure.
\<close>

theorem withRetry_critical_policy:
  "(sessionForceOffline s \<longrightarrow>
      withRetry fn retries delay s = (Inl (Thrown (Some ''SESSION_OFFLINE_FAILOVER'')), s)
      \<and> (\<forall>fns. run_ops (map Op_withRetry fns) s = s))
   \<and> (\<not> sessionForceOffline s \<and> fn (calls s) = Inr v \<longrightarrow>
        withRetry fn retries delay s = (Inr v, s\<lparr>calls := Suc (calls s)\<rparr>))
   \<and> (\<not> sessionForceOffline s \<and> fn (calls s) = Inl err \<and> isQuotaExceeded (errorMsg err) \<longrightarrow>
        withRetry fn retries delay s =
          (Inl err, s\<lparr>calls := Suc (calls s), sessionForceOffline := True\<rparr>))
   \<and> (\<not> sessionForceOffline s \<and> fn (calls s) = Inl err \<and> \<not> isQuotaExceeded (errorMsg err)
        \<and> isTransient (errorMsg err) \<and> 0 < retries \<longrightarrow>
        withRetry fn retries delay s =
          withRetry fn (retries - 1) (delay * 2)
            (s\<lparr>calls := Suc (calls s), slept := slept s @ [delay]\<rparr>))
   \<and> (\<not> sessionForceOffline s \<and> fn (calls s) = Inl err \<and> \<not> isQuotaExceeded (errorMsg err)
        \<and> (\<not> isTransient (errorMsg err) \<or> retries = 0) \<longrightarrow>
        withRetry fn retries delay s = (Inl err, s\<lparr>calls := Suc (calls s)\<rparr>))
   \<and> (\<not> sessionForceOffline s \<longrightarrow>
        calls s < calls (snd (withRetry fn retries delay s))
        \<and> calls (snd (withRetry fn retries delay s)) \<le> calls s + retries + 1
        \<and> slept (snd (withRetry fn retries delay s)) =
            slept s @ map (\<lambda>i. delay * 2 ^ i)
                        [0..<calls (snd (withRetry fn retries delay s)) - Suc (calls s)])
   \<and> sessionForceOffline (snd (withRetry fn retries delay s)) =
        (sessionForceOffline s \<or> ends_in_quota (fst (withRetry fn retries delay s)))"
proof (intro conjI impI allI)
  assume "sessionForceOffline s"
  then show "withRetry fn retries delay s = (Inl (Thrown (Some ''SESSION_OFFLINE_FAILOVER'')), s)"
    by (rule withRetry_latched)
next
  fix fns
  assume "sessionForceOffline s"
  then show "run_ops (map Op_withRetry fns) s = s"
    by (rule run_ops_critical_latched)
next
  assume "\<not> sessionForceOffline s \<and> fn (calls s) = Inr v"
  then show "withRetry fn retries delay s = (Inr v, s\<lparr>calls := Suc (calls s)\<rparr>)"
    by (simp add: withRetry_success)
next
  assume "\<not> sessionForceOffline s \<and> fn (calls s) = Inl err \<and> isQuotaExceeded (errorMsg err)"
  then show "withRetry fn retries delay s =
      (Inl err, s\<lparr>calls := Suc (calls s), sessionForceOffline := True\<rparr>)"
    by (simp add: withRetry_quota)
next
  assume "\<not> sessionForceOffline s \<and> fn (calls s) = Inl err \<and> \<not> isQuotaExceeded (errorMsg err)
        \<and> isTransient (errorMsg err) \<and> 0 < retries"
  then show "withRetry fn retries delay s =
      withRetry fn (retries - 1) (delay * 2)
        (s\<lparr>calls := Suc (calls s), slept := slept s @ [delay]\<rparr>)"
    by (simp add: withRetry_retry)
next
  assume "\<not> sessionForceOffline s \<and> fn (calls s) = Inl err \<and> \<not> isQuotaExceeded (errorMsg err)
        \<and> (\<not> isTransient (errorMsg err) \<or> retries = 0)"
  then show "withRetry fn retries delay s = (Inl err, s\<lparr>calls := Suc (calls s)\<rparr>)"
    by (simp add: withRetry_give_up)
next
  assume off: "\<not> sessionForceOffline s"
  show "calls s < calls (snd (withRetry fn retries delay s))"
    using withRetry_trace[OF off, of fn retries delay] by simp
  show "calls (snd (withRetry fn retries delay s)) \<le> calls s + retries + 1"
    using withRetry_trace[OF off, of fn retries delay] by simp
  show "slept (snd (withRetry fn retries delay s)) =
      slept s @ map (\<lambda>i. delay * 2 ^ i)
                  [0..<calls (snd (withRetry fn retries delay s)) - Suc (calls s)]"
    using withRetry_trace[OF off, of fn retries delay] by simp
next
  show "sessionForceOffline (snd (withRetry fn retries delay s)) =
        (sessionForceOffline s \<or> ends_in_quota (fst (withRetry fn retries delay s)))"
    by (rule withRetry_latch)
qed

text \<open>Two server errors, then the quota error; then a second critical call.\<close>

theorem withRetry_critical_policy_witness:
  "withRetry quota_after_two 3 2000 fresh_session =
     (Inl quota_error, \<lparr>sessionForceOffline = True, calls = 3, slept = [2000, 4000]\<rparr>)
   \<and> withRetry always_empty_response 3 2000
        \<lparr>sessionForceOffline = True, calls = 3, slept = [2000, 4000]\<rparr> =
       (Inl (Thrown (Some ''SESSION_OFFLINE_FAILOVER'')),
        \<lparr>sessionForceOffline = True, calls = 3, slept = [2000, 4000]\<rparr>)"
proof -
  let ?s1 = "\<lparr>sessionForceOffline = False, calls = 1, slept = [2000]\<rparr>"
  let ?s2 = "\<lparr>sessionForceOffline = False, calls = 2, slept = [2000, 4000]\<rparr>"
  let ?s3 = "\<lparr>sessionForceOffline = True, calls = 3, slept = [2000, 4000]\<rparr>"
  have srv: "\<not> isQuotaExceeded (errorMsg server_error)" "isTransient (errorMsg server_error)"
    by code_simp+
  have quo: "isQuotaExceeded (errorMsg quota_error)"
    by code_simp
  have "withRetry quota_after_two 3 2000 fresh_session = withRetry quota_after_two 2 4000 ?s1"
    using withRetry_critical_policy[of fresh_session quota_after_two 3 2000 _ server_error] srv
    by (simp add: fresh_session_def quota_after_two_def eval_nat_numeral)
  also have "\<dots> = withRetry quota_after_two 1 8000 ?s2"
    using withRetry_critical_policy[of ?s1 quota_after_two 2 4000 _ server_error] srv
    by (simp add: quota_after_two_def eval_nat_numeral)
  also have "\<dots> = (Inl quota_error, ?s3)"
    using withRetry_critical_policy[of ?s2 quota_after_two 1 8000 _ quota_error] quo
    by (simp add: quota_after_two_def eval_nat_numeral)
  finally have first: "withRetry quota_after_two 3 2000 fresh_session = (Inl quota_error, ?s3)" .
  have second: "withRetry always_empty_response 3 2000 ?s3 =
      (Inl (Thrown (Some ''SESSION_OFFLINE_FAILOVER'')), ?s3)"
    using withRetry_critical_policy[of ?s3 always_empty_response 3 2000] by simp
  show ?thesis using first second by simp
qed

section \<open>The asset path of the copy \<open>src/unnamed/part_001\<close>\<close>

lemma generateImage_try_part_001_latch:
  assumes "fst (checkOnlineStatus e s)"
  shows "sessionForceOffline (snd (generateImage_try_part_001 e fn s)) =
           ends_in_quota (fst (withRetry fn 3 2000 s))"
proof -
  obtain ai where ai: "getAi e = Inr ai"
    using getAi_online[OF assms] by blast
  obtain r s1 where w: "withRetry fn 3 2000 s = (r, s1)"
    by (cases "withRetry fn 3 2000 s")
  have "sessionForceOffline s1 = ends_in_quota r"
    using withRetry_latch[of fn 3 2000 s] online_not_latched[OF assms] w by simp
  then show ?thesis
    using ai w by (simp add: generateImage_try_part_001_def split: sum.splits)
qed

lemma image_catch_part_001_latch:
  "sessionForceOffline
     (snd (case checkOnlineStatus e s of
             (online, s0) \<Rightarrow>
               if \<not> online then (Inr [], s0)
               else (case generateImage_try_part_001 e fn s0 of
                       (Inr url, s1) \<Rightarrow> (Inr url, s1)
                     | (Inl err, s1) \<Rightarrow> (Inr [], s1)))) =
   (sessionForceOffline s \<or>
    fst (checkOnlineStatus e s) \<and> ends_in_quota (fst (withRetry fn 3 2000 s)))"
proof (cases "fst (checkOnlineStatus e s)")
  case True
  obtain r s1 where g: "generateImage_try_part_001 e fn s = (r, s1)"
    by (cases "generateImage_try_part_001 e fn s")
  have "sessionForceOffline s1 = ends_in_quota (fst (withRetry fn 3 2000 s))"
    using generateImage_try_part_001_latch[OF True, of fn] g by simp
  then show ?thesis
    using True g online_not_latched[OF True]
    by (simp add: checkOnlineStatus_eq split: sum.splits)
next
  case False
  then show ?thesis
    by (auto simp add: checkOnlineStatus_eq)
qed

text \<open>
  C1, at the input where the code departs from it. The copy \<open>src/unnamed/part_001\<close>
  has no \<open>withImageRetry\<close>: its four image operations wrap their attempt in
  \<open>withRetry\<close>. After each of them the latch is set exactly when it was set before, or
  the health check passed and the call ended in a quota failure. In an online session
  with the latch clear, a remote that answers with the quota error makes
  \<open>generatePlatingVisual\<close> of that copy return \<open>''\<close> with the latch set, so that
  \<open>checkOnlineStatus\<close> answers false afterwards; on the same input the operation of
  \<open>src/services/geminiService.ts\<close> returns \<open>''\<close> with the latch clear.
\<close>

theorem asset_path_part_001_latches_on_quota:
  "sessionForceOffline (snd (generatePlatingVisual_part_001 e fn protocol s)) =
     (sessionForceOffline s \<or>
      fst (checkOnlineStatus e s) \<and> ends_in_quota (fst (withRetry fn 3 2000 s)))
   \<and> sessionForceOffline (snd (generateDrinkVisual_part_001 e fn drinkName s)) =
     (sessionForceOffline s \<or>
      fst (checkOnlineStatus e s) \<and> ends_in_quota (fst (withRetry fn 3 2000 s)))
   \<and> sessionForceOffline (snd (generateIngredientVisual_part_001 e fn ingredientName s)) =
     (sessionForceOffline s \<or>
      fst (checkOnlineStatus e s) \<and> ends_in_quota (fst (withRetry fn 3 2000 s)))
   \<and> sessionForceOffline (snd (generateSchematic_part_001 e fn protocol s)) =
     (sessionForceOffline s \<or>
      fst (checkOnlineStatus e s) \<and> ends_in_quota (fst (withRetry fn 3 2000 s)))
   \<and> \<not> sessionForceOffline fresh_session
   \<and> fst (checkOnlineStatus online_env fresh_session)
   \<and> generatePlatingVisual_part_001 online_env always_quota (a_protocol [''tomato''] 5) fresh_session =
       (Inr [], \<lparr>sessionForceOffline = True, calls = 1, slept = []\<rparr>)
   \<and> \<not> fst (checkOnlineStatus online_env
         (snd (generatePlatingVisual_part_001 online_env always_quota (a_protocol [''tomato''] 5)
            fresh_session)))
   \<and> generatePlatingVisual online_env always_quota (a_protocol [''tomato''] 5) fresh_session =
       (Inr [], \<lparr>sessionForceOffline = False, calls = 1, slept = []\<rparr>)"
proof -
  have p: "sessionForceOffline (snd (generatePlatingVisual_part_001 e fn protocol s)) =
     (sessionForceOffline s \<or>
      fst (checkOnlineStatus e s) \<and> ends_in_quota (fst (withRetry fn 3 2000 s)))"
    unfolding generatePlatingVisual_part_001_def by (rule image_catch_part_001_latch)
  have d: "sessionForceOffline (snd (generateDrinkVisual_part_001 e fn drinkName s)) =
     (sessionForceOffline s \<or>
      fst (checkOnlineStatus e s) \<and> ends_in_quota (fst (withRetry fn 3 2000 s)))"
    unfolding generateDrinkVisual_part_001_def by (rule image_catch_part_001_latch)
  have i: "sessionForceOffline (snd (generateIngredientVisual_part_001 e fn ingredientName s)) =
     (sessionForceOffline s \<or>
      fst (checkOnlineStatus e s) \<and> ends_in_quota (fst (withRetry fn 3 2000 s)))"
    unfolding generateIngredientVisual_part_001_def by (rule image_catch_part_001_latch)
  have c: "sessionForceOffline (snd (generateSchematic_part_001 e fn protocol s)) =
     (sessionForceOffline s \<or>
      fst (checkOnlineStatus e s) \<and> ends_in_quota (fst (withRetry fn 3 2000 s)))"
    unfolding generateSchematic_part_001_def by (rule image_catch_part_001_latch)
  have before: "\<not> sessionForceOffline fresh_session"
    by code_simp
  have online: "fst (checkOnlineStatus online_env fresh_session)"
    by code_simp
  have run: "generatePlatingVisual_part_001 online_env always_quota (a_protocol [''tomato''] 5)
      fresh_session = (Inr [], \<lparr>sessionForceOffline = True, calls = 1, slept = []\<rparr>)"
    by code_simp
  have after: "\<not> fst (checkOnlineStatus online_env
         (snd (generatePlatingVisual_part_001 online_env always_quota (a_protocol [''tomato''] 5)
            fresh_session)))"
    by code_simp
  have current: "generatePlatingVisual online_env always_quota (a_protocol [''tomato''] 5)
      fresh_session = (Inr [], \<lparr>sessionForceOffline = False, calls = 1, slept = []\<rparr>)"
    by code_simp
  show ?thesis
    by (intro conjI p d i c before online run after current)
qed

text \<open>Two server errors and then the quota error; and a server that answers 500 throughout.\<close>

theorem asset_path_part_001_latches_on_quota_witness:
  "sessionForceOffline
     (snd (generateSchematic_part_001 online_env quota_after_two (a_protocol [''tomato''] 5)
        fresh_session))
   \<and> \<not> sessionForceOffline
         (snd (generateDrinkVisual_part_001 online_env always_server_error ''negroni''
            fresh_session))"
proof -
  have on: "fst (checkOnlineStatus online_env fresh_session)" "\<not> sessionForceOffline fresh_session"
    by code_simp+
  have q: "ends_in_quota (fst (withRetry quota_after_two 3 2000 fresh_session))"
    by code_simp
  have nq: "\<not> ends_in_quota (fst (withRetry always_server_error 3 2000 fresh_session))"
    by code_simp
  show ?thesis
    using on q nq
      asset_path_part_001_latches_on_quota[of online_env quota_after_two "a_protocol [''tomato''] 5"
        fresh_session]
      asset_path_part_001_latches_on_quota[of online_env always_server_error _ fresh_session
        "''negroni''"]
    by simp
qed

section \<open>Health check and reset\<close>

text \<open>
  C7. \<open>checkOnlineStatus\<close> answers \<open>(onLine \<and> credentialPresent) \<and> \<not> latched\<close> and
  returns the session as it was. A credential is present exactly when the environment
  variable or the stored key is a non-empty string, that is, when
  \<open>resolveGeminiApiKey\<close> does not throw.
\<close>

theorem checkOnlineStatus_exact:
  "checkOnlineStatus e s = ((onLine e \<and> credentialPresent e) \<and> \<not> sessionForceOffline s, s)
   \<and> credentialPresent e =
       (truthy_string (VITE_GEMINI_API_KEY e) \<or> truthy_string (localStorage e GEMINI_API_KEY))
   \<and> (failed (resolveGeminiApiKey e) = (\<not> credentialPresent e))"
  by (simp add: checkOnlineStatus_eq credentialPresent_iff[symmetric]) (simp add: credentialPresent_def)

text \<open>
  C9. \<open>resetHandshake\<close> is idempotent: on a session whose latch is clear it changes
  nothing; on any session it clears the latch and leaves the rest of the session alone,
  after which \<open>checkOnlineStatus\<close> answers \<open>onLine \<and> credentialPresent\<close>.
\<close>

theorem resetHandshake_idempotent:
  "(\<not> sessionForceOffline s \<longrightarrow> resetHandshake s = s)
   \<and> \<not> sessionForceOffline (resetHandshake s)
   \<and> calls (resetHandshake s) = calls s \<and> slept (resetHandshake s) = slept s
   \<and> resetHandshake (resetHandshake s) = resetHandshake s
   \<and> fst (checkOnlineStatus e (resetHandshake s)) = (onLine e \<and> credentialPresent e)"
  by (simp add: resetHandshake_def checkOnlineStatus_eq)

theorem resetHandshake_idempotent_witness:
  "\<not> sessionForceOffline fresh_session \<and> resetHandshake fresh_session = fresh_session
   \<and> sessionForceOffline (snd (withRetry always_quota 3 2000 fresh_session))
   \<and> \<not> fst (checkOnlineStatus online_env (snd (withRetry always_quota 3 2000 fresh_session)))
   \<and> \<not> sessionForceOffline (resetHandshake (snd (withRetry always_quota 3 2000 fresh_session)))
   \<and> fst (checkOnlineStatus online_env (resetHandshake (snd (withRetry always_quota 3 2000 fresh_session))))"
proof -
  have clear: "\<not> sessionForceOffline fresh_session"
    by (simp add: fresh_session_def)
  have noop: "resetHandshake fresh_session = fresh_session"
    using resetHandshake_idempotent[of fresh_session online_env] clear by simp
  have latched: "sessionForceOffline (snd (withRetry always_quota 3 2000 fresh_session))"
    by code_simp
  have off: "\<not> fst (checkOnlineStatus online_env (snd (withRetry always_quota 3 2000 fresh_session)))"
    using latched by (simp add: checkOnlineStatus_eq)
  have cred: "onLine online_env \<and> credentialPresent online_env"
    by code_simp
  have after: "\<not> sessionForceOffline (resetHandshake (snd (withRetry always_quota 3 2000 fresh_session)))
     \<and> fst (checkOnlineStatus online_env (resetHandshake (snd (withRetry always_quota 3 2000 fresh_session))))"
    using resetHandshake_idempotent[of "snd (withRetry always_quota 3 2000 fresh_session)" online_env] cred
    by simp
  show ?thesis using clear noop latched off after by simp
qed

section \<open>The optional stages\<close>

text \<open>
  C3, as stated, fails: \<open>auditRecall\<close> and \<open>refineManifestWithEnsemble\<close> call the
  remote service through \<open>withRetry\<close>. In an online session with the latch clear, a
  remote that answers with the quota error makes each of them return its fallback and
  leave the latch set.
\<close>

theorem optional_stages_latch_on_quota_counterexample:
  "\<not> sessionForceOffline fresh_session
   \<and> fst (auditRecall online_env always_quota parse_none [tomato (6 / 10)] fresh_session) = Inr []
   \<and> sessionForceOffline
        (snd (auditRecall online_env always_quota parse_none [tomato (6 / 10)] fresh_session))
   \<and> fst (refineManifestWithEnsemble online_env always_quota parse_none [tomato (6 / 10)]
          fresh_session) = Inr [tomato (6 / 10)]
   \<and> sessionForceOffline
        (snd (refineManifestWithEnsemble online_env always_quota parse_none [tomato (6 / 10)]
           fresh_session))"
  by code_simp

text \<open>
  C3, amended. After \<open>auditRecall\<close> or \<open>refineManifestWithEnsemble\<close> the latch is set
  exactly when it was set before, or the health check passed and the critical call of the
  operation ended in a quota failure. On every other outcome (health check negative,
  success, a failure that is not a quota failure) the latch is what it was.
\<close>

theorem optional_stages_latch:
  "sessionForceOffline (snd (auditRecall e fn parse ingredients s)) =
     (sessionForceOffline s \<or>
      fst (checkOnlineStatus e s) \<and> ends_in_quota (fst (withRetry fn 3 2000 s)))
   \<and> sessionForceOffline (snd (refineManifestWithEnsemble e fn parse' ingredients s)) =
     (sessionForceOffline s \<or>
      fst (checkOnlineStatus e s) \<and> ends_in_quota (fst (withRetry fn 3 2000 s)))"
  by (simp add: auditRecall_latch refineManifestWithEnsemble_latch)

theorem optional_stages_latch_witness:
  "sessionForceOffline (snd (auditRecall online_env quota_after_two parse_none [tomato (6 / 10)] fresh_session))
   \<and> \<not> sessionForceOffline
        (snd (refineManifestWithEnsemble online_env always_server_error parse_none [tomato (6 / 10)]
           fresh_session))"
proof -
  have on: "fst (checkOnlineStatus online_env fresh_session)" "\<not> sessionForceOffline fresh_session"
    by code_simp+
  have q: "ends_in_quota (fst (withRetry quota_after_two 3 2000 fresh_session))"
    by code_simp
  have nq: "\<not> ends_in_quota (fst (withRetry always_server_error 3 2000 fresh_session))"
    by code_simp
  show ?thesis
    using on q nq
      optional_stages_latch[of online_env quota_after_two parse_none "[tomato (6 / 10)]" fresh_session]
      optional_stages_latch[of online_env always_server_error _ "[tomato (6 / 10)]" fresh_session parse_none]
    by simp
qed

text \<open>
  C8. \<open>auditRecall\<close> and \<open>refineManifestWithEnsemble\<close> always return a value, never a
  thrown one. When the health check is negative they return the empty list, respectively
  the ingredients they were given, without touching the session. When the critical call
  fails, or anything else in the \<open>try\<close> block throws, they return the same fallback.
\<close>

theorem optional_stages_degrade:
  "(\<exists>hypotheses. fst (auditRecall e fn parse ingredients s) = Inr hypotheses)
   \<and> (\<not> fst (checkOnlineStatus e s) \<longrightarrow> auditRecall e fn parse ingredients s = (Inr [], s))
   \<and> (failed (fst (withRetry fn 3 2000 s)) \<or> failed (fst (auditRecall_try e fn parse s)) \<longrightarrow>
        fst (auditRecall e fn parse ingredients s) = Inr [])
   \<and> (\<exists>refined. fst (refineManifestWithEnsemble e fn parse' ingredients s) = Inr refined)
   \<and> (\<not> fst (checkOnlineStatus e s) \<longrightarrow>
        refineManifestWithEnsemble e fn parse' ingredients s = (Inr ingredients, s))
   \<and> (failed (fst (withRetry fn 3 2000 s)) \<or> failed (fst (refineManifestWithEnsemble_try e fn parse' s)) \<longrightarrow>
        fst (refineManifestWithEnsemble e fn parse' ingredients s) = Inr ingredients)"
proof -
  have a_total: "\<exists>hypotheses. fst (auditRecall e fn parse ingredients s) = Inr hypotheses"
    by (cases "fst (checkOnlineStatus e s)") (simp_all add: auditRecall_online auditRecall_offline)
  have a_fail: "fst (auditRecall e fn parse ingredients s) = Inr []"
    if "failed (fst (withRetry fn 3 2000 s)) \<or> failed (fst (auditRecall_try e fn parse s))"
  proof -
    from that have f: "failed (fst (auditRecall_try e fn parse s))"
      using auditRecall_try_failed by blast
    show ?thesis
    proof (cases "fst (checkOnlineStatus e s)")
      case True
      with f show ?thesis by (simp add: auditRecall_online failed_def split: sum.splits)
    next
      case False
      then show ?thesis by (simp add: auditRecall_offline)
    qed
  qed
  have r_total: "\<exists>refined. fst (refineManifestWithEnsemble e fn parse' ingredients s) = Inr refined"
    by (cases "fst (checkOnlineStatus e s)")
       (simp_all add: refineManifestWithEnsemble_online refineManifestWithEnsemble_offline)
  have r_fail: "fst (refineManifestWithEnsemble e fn parse' ingredients s) = Inr ingredients"
    if "failed (fst (withRetry fn 3 2000 s)) \<or> failed (fst (refineManifestWithEnsemble_try e fn parse' s))"
  proof -
    from that have f: "failed (fst (refineManifestWithEnsemble_try e fn parse' s))"
      using refineManifestWithEnsemble_try_failed by blast
    show ?thesis
    proof (cases "fst (checkOnlineStatus e s)")
      case True
      with f show ?thesis
        by (simp add: refineManifestWithEnsemble_online failed_def split: sum.splits)
    next
      case False
      then show ?thesis by (simp add: refineManifestWithEnsemble_offline)
    qed
  qed
  show ?thesis
    using a_total a_fail r_total r_fail
    by (simp add: auditRecall_offline refineManifestWithEnsemble_offline)
qed

text \<open>A server that answers 500 to every attempt; then a browser that is off line.\<close>

theorem optional_stages_degrade_witness:
  "failed (fst (withRetry always_server_error 3 2000 fresh_session))
   \<and> fst (auditRecall online_env always_server_error parse_none [tomato (6 / 10)] fresh_session) = Inr []
   \<and> fst (refineManifestWithEnsemble online_env always_server_error parse_none [tomato (6 / 10)]
        fresh_session) = Inr [tomato (6 / 10)]
   \<and> \<not> fst (checkOnlineStatus offline_env fresh_session)
   \<and> auditRecall offline_env always_empty_response parse_none [tomato (6 / 10)]
        fresh_session = (Inr [], fresh_session)
   \<and> refineManifestWithEnsemble offline_env always_empty_response parse_none
        [tomato (6 / 10)] fresh_session = (Inr [tomato (6 / 10)], fresh_session)"
proof -
  have f: "failed (fst (withRetry always_server_error 3 2000 fresh_session))"
    by code_simp
  have off: "\<not> fst (checkOnlineStatus offline_env fresh_session)"
    by code_simp
  show ?thesis
    using f off
      optional_stages_degrade[of online_env always_server_error parse_none "[tomato (6 / 10)]"
        fresh_session parse_none]
      optional_stages_degrade[of offline_env always_empty_response parse_none
        "[tomato (6 / 10)]" fresh_session parse_none]
    by simp
qed

section \<open>Protocol synthesis\<close>

text \<open>
  C6. \<open>synthesizeProtocol\<close> always returns a protocol, never a thrown value. With the
  latch set it returns the offline protocol and leaves the session as it was. Whenever the
  health check is negative, the critical call fails (a quota failure included) or anything
  else in the \<open>try\<close> block throws, it returns the offline protocol, which carries
  \<open>isOffline = true\<close>. After a quota failure of the critical call the latch is set, and
  \<open>checkOnlineStatus\<close> answers \<open>false\<close> in every environment after any sequence of
  operations that does not call \<open>resetHandshake\<close>; after \<open>resetHandshake\<close> it
  answers \<open>onLine \<and> credentialPresent\<close> again.
\<close>

theorem synthesizeProtocol_falls_back:
  "(\<exists>protocol. fst (synthesizeProtocol e fn parse randomId fuseResults offlineGenerator
        ingredients preferences s) = Inr protocol)
   \<and> isOffline (synthesizeOfflineProtocol offlineGenerator ingredients preferences) = Some True
   \<and> (sessionForceOffline s \<longrightarrow>
        synthesizeProtocol e fn parse randomId fuseResults offlineGenerator ingredients preferences s =
          (Inr (synthesizeOfflineProtocol offlineGenerator ingredients preferences), s))
   \<and> (\<not> fst (checkOnlineStatus e s) \<or> failed (fst (withRetry fn 3 2000 s))
        \<or> failed (fst (synthesizeProtocol_try e fn parse randomId fuseResults ingredients s)) \<longrightarrow>
        fst (synthesizeProtocol e fn parse randomId fuseResults offlineGenerator
               ingredients preferences s) =
          Inr (synthesizeOfflineProtocol offlineGenerator ingredients preferences))
   \<and> (fst (checkOnlineStatus e s) \<and> ends_in_quota (fst (withRetry fn 3 2000 s)) \<longrightarrow>
        sessionForceOffline (snd (synthesizeProtocol e fn parse randomId fuseResults
               offlineGenerator ingredients preferences s))
        \<and> (\<forall>ops e'. \<not> fst (checkOnlineStatus e'
               (run_ops ops (snd (synthesizeProtocol e fn parse randomId fuseResults
                  offlineGenerator ingredients preferences s)))))
        \<and> (\<forall>ops e'. fst (checkOnlineStatus e'
               (resetHandshake (run_ops ops (snd (synthesizeProtocol e fn parse randomId
                  fuseResults offlineGenerator ingredients preferences s))))) =
             (onLine e' \<and> credentialPresent e')))"
proof -
  let ?run = "synthesizeProtocol e fn parse randomId fuseResults offlineGenerator ingredients preferences s"
  let ?off = "synthesizeOfflineProtocol offlineGenerator ingredients preferences"
  have total: "\<exists>protocol. fst ?run = Inr protocol"
    by (cases "fst (checkOnlineStatus e s)")
       (simp_all add: synthesizeProtocol_online synthesizeProtocol_offline)
  have marked: "isOffline ?off = Some True"
    by (simp add: synthesizeOfflineProtocol_def)
  have latched: "?run = (Inr ?off, s)" if "sessionForceOffline s"
    using that by (simp add: synthesizeProtocol_offline checkOnlineStatus_eq)
  have fallback: "fst ?run = Inr ?off"
    if "\<not> fst (checkOnlineStatus e s) \<or> failed (fst (withRetry fn 3 2000 s))
        \<or> failed (fst (synthesizeProtocol_try e fn parse randomId fuseResults ingredients s))"
  proof (cases "fst (checkOnlineStatus e s)")
    case True
    with that have "failed (fst (synthesizeProtocol_try e fn parse randomId fuseResults ingredients s))"
      using synthesizeProtocol_try_failed by blast
    with True show ?thesis
      by (simp add: synthesizeProtocol_online failed_def split: sum.splits)
  next
    case False
    then show ?thesis by (simp add: synthesizeProtocol_offline)
  qed
  have trip: "sessionForceOffline (snd ?run)"
    if "fst (checkOnlineStatus e s) \<and> ends_in_quota (fst (withRetry fn 3 2000 s))"
    using that by (simp add: synthesizeProtocol_latch)
  have stays: "\<not> fst (checkOnlineStatus e' (run_ops ops (snd ?run)))"
    if "fst (checkOnlineStatus e s) \<and> ends_in_quota (fst (withRetry fn 3 2000 s))" for ops e'
    using run_ops_keeps_latch[OF trip[OF that], of ops] by (simp add: checkOnlineStatus_eq)
  have reset: "fst (checkOnlineStatus e' (resetHandshake (run_ops ops (snd ?run)))) =
      (onLine e' \<and> credentialPresent e')" for ops e'
    by (simp add: checkOnlineStatus_eq resetHandshake_def)
  show ?thesis
    using total marked latched fallback trip stays reset by blast
qed

text \<open>Two server errors and then the quota error, in an online session.\<close>

theorem synthesizeProtocol_falls_back_witness:
  "fst (checkOnlineStatus online_env fresh_session)
   \<and> ends_in_quota (fst (withRetry quota_after_two 3 2000 fresh_session))
   \<and> fst (synthesizeProtocol online_env quota_after_two parse_salad ''id1'' fuse_unchanged offline_salad
          [tomato (6 / 10)] no_preferences fresh_session) =
        Inr ((a_protocol [''tomato''] 2)\<lparr>isOffline := Some True\<rparr>)
   \<and> sessionForceOffline (snd (synthesizeProtocol online_env quota_after_two parse_salad ''id1''
          fuse_unchanged offline_salad [tomato (6 / 10)] no_preferences fresh_session))
   \<and> \<not> fst (checkOnlineStatus online_env
          (run_ops [Op_generatePlatingVisual online_env always_empty_response (a_protocol [''tomato''] 2),
                    Op_withRetry always_empty_response]
             (snd (synthesizeProtocol online_env quota_after_two parse_salad ''id1''
                fuse_unchanged offline_salad [tomato (6 / 10)] no_preferences fresh_session))))
   \<and> fst (checkOnlineStatus online_env
          (resetHandshake (run_ops []
             (snd (synthesizeProtocol online_env quota_after_two parse_salad ''id1''
                fuse_unchanged offline_salad [tomato (6 / 10)] no_preferences fresh_session)))))"
proof -
  let ?run = "synthesizeProtocol online_env quota_after_two parse_salad ''id1'' fuse_unchanged
      offline_salad [tomato (6 / 10)] no_preferences fresh_session"
  have on: "fst (checkOnlineStatus online_env fresh_session)"
    by code_simp
  have q: "ends_in_quota (fst (withRetry quota_after_two 3 2000 fresh_session))"
    by code_simp
  have f: "failed (fst (withRetry quota_after_two 3 2000 fresh_session))"
    by code_simp
  have off: "synthesizeOfflineProtocol offline_salad [tomato (6 / 10)] no_preferences =
      (a_protocol [''tomato''] 2)\<lparr>isOffline := Some True\<rparr>"
    by (simp add: synthesizeOfflineProtocol_def offline_salad_def tomato_def)
  have cred: "onLine online_env \<and> credentialPresent online_env"
    by code_simp
  note inst = synthesizeProtocol_falls_back[of online_env quota_after_two parse_salad "''id1''"
      fuse_unchanged offline_salad "[tomato (6 / 10)]" no_preferences fresh_session]
  have r: "fst ?run = Inr ((a_protocol [''tomato''] 2)\<lparr>isOffline := Some True\<rparr>)"
    using inst f off by simp
  have l: "sessionForceOffline (snd ?run)"
    using inst on q by blast
  have st: "\<not> fst (checkOnlineStatus online_env
          (run_ops [Op_generatePlatingVisual online_env always_empty_response (a_protocol [''tomato''] 2),
                    Op_withRetry always_empty_response] (snd ?run)))"
    using inst on q by blast
  have re: "fst (checkOnlineStatus online_env (resetHandshake (run_ops [] (snd ?run))))"
    using inst on q cred by blast
  show ?thesis
    using on q r l st re by blast
qed

section \<open>Binary64 rounding\<close>

text \<open>
  \<open>fl\<close> on known values: the doubles nearest 0.1 and 0.7, the sum
  \<open>0.1 + 0.2\<close> (which is not the double nearest 0.3), a tie that rounds to the even
  significand, and values that are doubles already.
\<close>

lemma fl_examples:
  "fl (1 / 10) = Num (3602879701896397 / 36028797018963968)
   \<and> fl (7 / 10) = Num (3152519739159347 / 4503599627370496)
   \<and> js_add (fl (1 / 10)) (fl (2 / 10)) = Num (1351079888211149 / 4503599627370496)
   \<and> fl (3 / 10) = Num (5404319552844595 / 18014398509481984)
   \<and> fl (1 + 1 / 2 ^ 53) = Num 1
   \<and> fl (1 + 3 / 2 ^ 53) = Num (1 + 4 / 2 ^ 53)
   \<and> fl (- (1 / 10)) = Num (- (3602879701896397 / 36028797018963968))
   \<and> fl 100 = Num 100 \<and> fl (3 / 8) = Num (3 / 8)"
  by code_simp

text \<open>
  The rounding error of \<open>fl\<close>: \<open>ilog2\<close> is the binary exponent, rounding to the nearest
  integer moves a number by at most one half, and so \<open>fl x\<close> is within half a unit in
  the last place of \<open>x\<close>. Rounding is monotone at the integers up to \<open>2 ^ 52\<close>.
\<close>

lemma bitlen_nonneg: "0 \<le> bitlen n"
proof (induction n rule: bitlen.induct)
  case (1 n)
  then show ?case by (subst bitlen.simps) simp
qed

lemma bitlen_pos: "0 < n \<Longrightarrow> 0 < bitlen n"
  using bitlen_nonneg[of "n div 2"] by (subst bitlen.simps) simp

lemma bitlen_bounds:
  "0 < n \<Longrightarrow> 2 ^ nat (bitlen n - 1) \<le> n \<and> n < 2 ^ nat (bitlen n)"
proof (induction n rule: bitlen.induct)
  case (1 n)
  show ?case
  proof (cases "n div 2 = 0")
    case True
    with 1 have "n = 1" by presburger
    then show ?thesis by (simp add: bitlen.simps[of 1] bitlen.simps[of 0])
  next
    case False
    with 1 have pos: "0 < n div 2" by presburger
    have ih: "2 ^ nat (bitlen (n div 2) - 1) \<le> n div 2 \<and> n div 2 < 2 ^ nat (bitlen (n div 2))"
      using 1 pos by simp
    have b: "bitlen n = 1 + bitlen (n div 2)"
      using 1 by (subst bitlen.simps) simp
    have bp: "0 < bitlen (n div 2)" using pos by (rule bitlen_pos)
    then have e1: "nat (bitlen n - 1) = Suc (nat (bitlen (n div 2) - 1))"
      and e2: "nat (bitlen n) = Suc (nat (bitlen (n div 2)))"
      using b by simp_all
    show ?thesis
      unfolding e1 e2 using ih by (simp) presburger
  qed
qed

lemma ilog2_bounds:
  assumes "0 < x"
  shows "2 powi ilog2 x \<le> x \<and> x < 2 powi (ilog2 x + 1)"
proof -
  obtain p q where pq: "quotient_of x = (p, q)"
    by (cases "quotient_of x")
  then have q: "0 < q" and x: "x = of_int p / of_int q"
    using quotient_of_denom_pos quotient_of_div by blast+
  have p: "0 < p"
    using assms q x by (simp add: zero_less_divide_iff)
  define bp where "bp = bitlen p"
  define bq where "bq = bitlen q"
  have bpp: "0 < bp" and bqp: "0 < bq"
    using p q by (simp_all add: bp_def bq_def bitlen_pos)
  have P: "(2::rat) powi (bp - 1) \<le> of_int p" "of_int p < (2::rat) powi bp"
  proof -
    have "2 ^ nat (bp - 1) \<le> p" "p < 2 ^ nat bp"
      using bitlen_bounds[OF p] by (simp_all add: bp_def)
    then have "(of_int (2 ^ nat (bp - 1)) :: rat) \<le> of_int p" "(of_int p :: rat) < of_int (2 ^ nat bp)"
      by (simp_all only: of_int_le_iff of_int_less_iff)
    then show "(2::rat) powi (bp - 1) \<le> of_int p" "of_int p < (2::rat) powi bp"
      using bpp by (simp_all add: power_int_def)
  qed
  have Q: "(2::rat) powi (bq - 1) \<le> of_int q" "of_int q < (2::rat) powi bq"
  proof -
    have "2 ^ nat (bq - 1) \<le> q" "q < 2 ^ nat bq"
      using bitlen_bounds[OF q] by (simp_all add: bq_def)
    then have "(of_int (2 ^ nat (bq - 1)) :: rat) \<le> of_int q" "(of_int q :: rat) < of_int (2 ^ nat bq)"
      by (simp_all only: of_int_le_iff of_int_less_iff)
    then show "(2::rat) powi (bq - 1) \<le> of_int q" "of_int q < (2::rat) powi bq"
      using bqp by (simp_all add: power_int_def)
  qed
  have qpos: "(0::rat) < of_int q" using q by simp
  have ppos: "(0::rat) < of_int p" using p by simp
  have lower: "(2::rat) powi (bp - bq - 1) < x"
  proof -
    have "(2::rat) powi (bp - bq - 1) = 2 powi (bp - 1) / 2 powi bq"
      by (simp add: power_int_diff)
    also have "\<dots> \<le> of_int p / 2 powi bq"
      using P(1) by (simp add: divide_right_mono)
    also have "\<dots> < of_int p / of_int q"
      using Q(2) ppos qpos by (simp add: divide_strict_left_mono)
    finally show ?thesis using x by simp
  qed
  have upper: "x < (2::rat) powi (bp - bq + 1)"
  proof -
    have "x = of_int p / of_int q" by (rule x)
    also have "\<dots> < 2 powi bp / of_int q"
      using P(2) qpos by (simp add: divide_strict_right_mono)
    also have "\<dots> \<le> 2 powi bp / 2 powi (bq - 1)"
      using Q(1) by (intro frac_le) simp_all
    also have "\<dots> = 2 powi (bp - bq + 1)"
    proof -
      have "(2::rat) powi (bp - bq + 1) = 2 powi (bp - (bq - 1))"
        by (rule arg_cong[where f = "\<lambda>k. 2 powi k"]) simp
      also have "\<dots> = 2 powi bp / 2 powi (bq - 1)"
        by (rule power_int_diff) simp
      finally show ?thesis by simp
    qed
    finally show ?thesis .
  qed
  have e: "ilog2 x = (if 2 powi (bp - bq) \<le> x then bp - bq else bp - bq - 1)"
    by (simp add: ilog2_def pq bp_def bq_def Let_def)
  show ?thesis
  proof (cases "2 powi (bp - bq) \<le> x")
    case True
    with e upper show ?thesis by simp
  next
    case False
    with e lower show ?thesis by simp
  qed
qed

lemma floor_facts: "of_int \<lfloor>y\<rfloor> \<le> (y::rat) \<and> y < of_int \<lfloor>y\<rfloor> + 1"
  by linarith

lemma round_half_even_error: "\<bar>of_int (round_half_even y) - y\<bar> \<le> 1 / 2"
  using floor_facts[of y] unfolding round_half_even_def Let_def
  by (cases "y - of_int \<lfloor>y\<rfloor> < 1 / 2"; cases "1 / 2 < y - of_int \<lfloor>y\<rfloor>") simp_all

lemma round_half_even_le: "y \<le> of_int m \<Longrightarrow> round_half_even y \<le> m"
proof -
  assume le: "y \<le> of_int m"
  then have f: "\<lfloor>y\<rfloor> \<le> m" by (simp add: floor_le_iff)
  show ?thesis
  proof (cases "\<lfloor>y\<rfloor> = m")
    case True
    with le floor_facts[of y] have "y = of_int \<lfloor>y\<rfloor>" by simp
    then have "y - of_int \<lfloor>y\<rfloor> = 0" by simp
    then show ?thesis using True by (simp add: round_half_even_def Let_def)
  next
    case False
    with f have "\<lfloor>y\<rfloor> + 1 \<le> m" by simp
    then show ?thesis by (simp add: round_half_even_def Let_def)
  qed
qed

lemma round_half_even_ge: "of_int m \<le> y \<Longrightarrow> m \<le> round_half_even y"
proof -
  assume "of_int m \<le> y"
  then have "m \<le> \<lfloor>y\<rfloor>" by (simp add: le_floor_iff)
  then show ?thesis by (simp add: round_half_even_def Let_def)
qed

lemma quantum_pos: "0 < quantum x"
  by (simp add: quantum_def)

lemma quantum_le:
  assumes "x \<noteq> 0" "\<bar>x\<bar> < 2 powi k" "- 1021 \<le> k"
  shows "quantum x \<le> 2 powi (k - 53)"
proof -
  have "2 powi ilog2 \<bar>x\<bar> \<le> \<bar>x\<bar>"
    using ilog2_bounds[of "\<bar>x\<bar>"] assms(1) by simp
  with assms(2) have "(2::rat) powi ilog2 \<bar>x\<bar> < 2 powi k" by simp
  have "ilog2 \<bar>x\<bar> < k"
  proof (rule ccontr)
    assume "\<not> ilog2 \<bar>x\<bar> < k"
    then have "(2::rat) powi k \<le> 2 powi ilog2 \<bar>x\<bar>"
      by (intro power_int_increasing) simp_all
    with \<open>(2::rat) powi ilog2 \<bar>x\<bar> < 2 powi k\<close> show False by simp
  qed
  with assms(3) have "max (ilog2 \<bar>x\<bar>) (- 1022) - 52 \<le> k - 53" by simp
  then show ?thesis
    unfolding quantum_def by (intro power_int_increasing) simp_all
qed

lemma fl_error:
  assumes "\<bar>x\<bar> < 2 powi k" "- 1021 \<le> k" "k \<le> 1023"
  shows "\<exists>y. fl x = Num y \<and> \<bar>y - x\<bar> \<le> 2 powi (k - 54)"
proof (cases "x = 0")
  case True
  then show ?thesis by (simp add: fl_def)
next
  case False
  define q where "q = quantum x"
  define y where "y = of_int (round_half_even (x / q)) * q"
  have qpos: "0 < q" by (simp add: q_def quantum_pos)
  have qle: "q \<le> 2 powi (k - 53)"
    using quantum_le[OF False assms(1,2)] by (simp add: q_def)
  have "\<bar>y - x\<bar> = \<bar>of_int (round_half_even (x / q)) - x / q\<bar> * q"
  proof -
    have "y - x = (of_int (round_half_even (x / q)) - x / q) * q"
      using qpos by (simp add: y_def field_simps)
    then show ?thesis using qpos by (simp add: abs_mult)
  qed
  also have "\<dots> \<le> 1 / 2 * q"
    using round_half_even_error[of "x / q"] qpos by (intro mult_right_mono) simp_all
  also have "\<dots> \<le> 1 / 2 * 2 powi (k - 53)"
    using qle by simp
  also have "\<dots> = 2 powi (k - 54)"
  proof -
    have "(2::rat) powi (k - 53) = 2 powi (k - 54 + 1)" by (rule arg_cong[where f = "\<lambda>k. 2 powi k"]) simp
    also have "\<dots> = 2 powi (k - 54) * 2" by (rule power_int_add_1) simp
    finally show ?thesis by simp
  qed
  finally have err: "\<bar>y - x\<bar> \<le> 2 powi (k - 54)" .
  have small: "\<not> 1024 \<le> ilog2 \<bar>y\<bar>" if "y \<noteq> 0"
  proof
    assume big: "1024 \<le> ilog2 \<bar>y\<bar>"
    have "(2::rat) powi 1024 \<le> 2 powi ilog2 \<bar>y\<bar>"
      using big by (intro power_int_increasing) simp_all
    also have "\<dots> \<le> \<bar>y\<bar>"
      using ilog2_bounds[of "\<bar>y\<bar>"] that by simp
    also have "\<dots> \<le> \<bar>x\<bar> + 2 powi (k - 54)"
      using err by linarith
    also have "\<dots> < 2 powi k + 2 powi (k - 54)"
      using assms(1) by simp
    also have "\<dots> \<le> 2 powi k + 2 powi k"
      by (intro add_left_mono power_int_increasing) simp_all
    also have "\<dots> = 2 powi (k + 1)"
      by (simp add: power_int_add)
    also have "\<dots> \<le> 2 powi 1024"
      using assms(3) by (intro power_int_increasing) simp_all
    finally show False by simp
  qed
  have "fl x = Num y"
    using False small by (auto simp add: fl_def Let_def y_def q_def)
  with err show ?thesis by blast
qed

lemma fl_zero: "fl 0 = Num 0"
  by (simp add: fl_def)

lemma fl_error_2: "\<bar>x\<bar> < 2 \<Longrightarrow> \<exists>y. fl x = Num y \<and> \<bar>y - x\<bar> \<le> 1 / 2 ^ 53"
  using fl_error[of x 1] by (simp add: power_int_def field_simps)

lemma fl_error_128: "\<bar>x\<bar> < 128 \<Longrightarrow> \<exists>y. fl x = Num y \<and> \<bar>y - x\<bar> \<le> 1 / 2 ^ 47"
  using fl_error[of x 7] by (simp add: power_int_def field_simps)

lemma fl_between:
  assumes "0 \<le> x" "x \<le> of_int m" "m \<le> 2 ^ 52"
  shows "\<exists>y. fl x = Num y \<and> 0 \<le> y \<and> y \<le> of_int m"
proof (cases "x = 0")
  case True
  with assms show ?thesis by (simp add: fl_def)
next
  case False
  with assms have xpos: "0 < x" by simp
  define e where "e = ilog2 \<bar>x\<bar>"
  define j where "j = max e (- 1022) - 52"
  define q where "q = quantum x"
  define y where "y = of_int (round_half_even (x / q)) * q"
  have q: "q = 2 powi j" by (simp add: q_def quantum_def j_def e_def)
  have qpos: "0 < q" by (simp add: q)
  have mr: "(of_int m :: rat) \<le> 2 powi 52"
  proof -
    have "(of_int m :: rat) \<le> of_int (2 ^ 52)" using assms(3) by (simp only: of_int_le_iff)
    then show ?thesis by (simp add: power_int_def)
  qed
  have xm: "x \<le> 2 powi 52"
    using assms(2) mr by simp
  have "e \<le> 52"
  proof (rule ccontr)
    assume "\<not> e \<le> 52"
    then have "(2::rat) powi 53 \<le> 2 powi e"
      by (intro power_int_increasing) simp_all
    also have "\<dots> \<le> x"
      using ilog2_bounds[of "\<bar>x\<bar>"] xpos by (simp add: e_def)
    finally show False using xm by (simp add: power_int_def)
  qed
  then have j: "j \<le> 0" by (simp add: j_def)
  have inv: "1 / q = of_int (2 ^ nat (- j))"
  proof -
    have "1 / q = 2 powi (- j)"
      by (simp add: q power_int_minus inverse_eq_divide)
    also have "\<dots> = 2 ^ nat (- j)"
      using j by (simp add: power_int_def)
    finally show ?thesis by simp
  qed
  have "x / q \<le> of_int m / q"
    using assms(2) qpos by (simp add: divide_right_mono)
  also have "of_int m / q = of_int (m * 2 ^ nat (- j))"
  proof -
    have "of_int m / q = of_int m * (1 / q)" by simp
    also have "\<dots> = of_int m * of_int (2 ^ nat (- j))" by (simp only: inv)
    finally show ?thesis by simp
  qed
  finally have "round_half_even (x / q) \<le> m * 2 ^ nat (- j)"
    by (rule round_half_even_le)
  then have "(of_int (round_half_even (x / q)) :: rat) \<le> of_int (m * 2 ^ nat (- j))"
    by (simp only: of_int_le_iff)
  then have "y \<le> of_int (m * 2 ^ nat (- j)) * q"
    using qpos by (simp add: y_def)
  also have "\<dots> = of_int m * (of_int (2 ^ nat (- j)) * q)" by simp
  also have "of_int (2 ^ nat (- j)) * q = 1"
    using inv qpos by (simp add: field_simps)
  finally have yle: "y \<le> of_int m" by simp
  have "(of_int 0 :: rat) \<le> x / q" using xpos qpos by simp
  then have "0 \<le> round_half_even (x / q)" by (rule round_half_even_ge)
  then have yge: "0 \<le> y" using qpos by (simp add: y_def)
  have small: "\<not> 1024 \<le> ilog2 \<bar>y\<bar>" if "y \<noteq> 0"
  proof
    assume big: "1024 \<le> ilog2 \<bar>y\<bar>"
    have "(2::rat) powi 1024 \<le> 2 powi ilog2 \<bar>y\<bar>"
      using big by (intro power_int_increasing) simp_all
    also have "\<dots> \<le> \<bar>y\<bar>"
      using ilog2_bounds[of "\<bar>y\<bar>"] that by simp
    also have "\<dots> \<le> 2 powi 52"
      using yle yge mr by simp
    finally show False by (simp add: power_int_def)
  qed
  have "fl x = Num y"
    using False small by (auto simp add: fl_def Let_def y_def q_def)
  with yle yge show ?thesis by blast
qed

lemma fl_nonneg:
  assumes "0 \<le> x"
  shows "fl x = PInf \<or> (\<exists>y. fl x = Num y \<and> 0 \<le> y)"
proof (cases "x = 0")
  case True
  then show ?thesis by (simp add: fl_def)
next
  case False
  define y where "y = of_int (round_half_even (x / quantum x)) * quantum x"
  have "(of_int 0 :: rat) \<le> x / quantum x"
    using assms quantum_pos[of x] by simp
  then have "0 \<le> round_half_even (x / quantum x)" by (rule round_half_even_ge)
  then have "0 \<le> y" using quantum_pos[of x] by (simp add: y_def)
  then show ?thesis
    using False by (auto simp add: fl_def Let_def y_def[symmetric])
qed

lemma fl_unit: "0 \<le> x \<Longrightarrow> x \<le> 1 \<Longrightarrow> \<exists>y. fl x = Num y \<and> 0 \<le> y \<and> y \<le> 1"
  using fl_between[of x 1] by simp

section \<open>Composite confidence\<close>

lemma toLowerCaseIn_ascii: "is_ascii s \<Longrightarrow> toLowerCaseIn unicode s = toLowerCase s"
  by (simp add: toLowerCaseIn_def)

lemma toLowerCaseIn_unicode: "\<not> is_ascii s \<Longrightarrow> toLowerCaseIn unicode s = unicode s"
  by (simp add: toLowerCaseIn_def)

text \<open>
  An ingredient whose name is a member that every object inherits: the memory lookup finds
  a function, the bias is \<open>NaN\<close>, the sum is \<open>NaN\<close> and \<open>|| 1\<close> makes the perception
  term 1.
\<close>

lemma inherited_key_example:
  "remembered (memoryOf None) ''constructor'' = NaN
   \<and> mlConfidence unicode None [(tomato (6 / 10))\<lparr>name := ''constructor''\<rparr>] = Num 1
   \<and> calculateCompositeConfidence unicode None [(tomato (6 / 10))\<lparr>name := ''constructor''\<rparr>]
        (a_protocol [''constructor''] 5) = Num 100"
  by code_simp

text \<open>
  A name that is not pure ASCII is folded by the engine: a reference in capitals whose
  sixth letter is the Latin-1 letter 209 (N with tilde) is the perceived name in small
  letters (letter 241), not a hallucination.
\<close>

lemma toLowerCaseIn_example:
  "constraintSatisfaction fold_latin1
     [(tomato (6 / 10))\<lparr>name := ''jalape'' @ [char_of (241::nat)] @ ''o''\<rparr>]
     (a_protocol [''JALAPE'' @ [char_of (209::nat)] @ ''O''] 5) = Num 1
   \<and> calculateCompositeConfidence fold_latin1 None
     [(tomato (6 / 10))\<lparr>name := ''jalape'' @ [char_of (241::nat)] @ ''o''\<rparr>]
     (a_protocol [''JALAPE'' @ [char_of (209::nat)] @ ''O''] 5) = Num 80"
  by code_simp

text \<open>
  Binary64 rounding decides a result: at confidence 0.57 the code returns 78, where the
  exact value 78.5 of the formula would round to 79.
\<close>

lemma binary64_rounding_example:
  "calculateCompositeConfidence unicode None [tomato (57 / 100)] (a_protocol [''tomato''] 5) = Num 78
   \<and> \<lfloor>100 * (5 / 10 * (57 / 100) + 3 / 10 * 1 + 2 / 10 * 1) + 1 / 2 :: rat\<rfloor> = 79"
  by code_simp

lemma js_add_NaN_right: "js_add x NaN = NaN"
  by (cases x) simp_all

lemma js_mul_NaN_right: "js_mul x NaN = NaN"
  by (cases x) simp_all

lemma constraintSatisfaction_no_references:
  "ingredients_used protocol = [] \<Longrightarrow> constraintSatisfaction unicode mlInventory protocol = NaN"
  by (simp add: constraintSatisfaction_def hallucinations_def js_sub_def)

lemma compositeScore_NaN_constraint: "compositeScore ml gemini NaN = NaN"
  by (simp add: compositeScore_def js_add_NaN_right js_mul_NaN_right)

text \<open>
  C4, at the input where the code departs from it: for a protocol that references no
  ingredient, \<open>hallucinations / protocol.ingredients_used.length\<close> is \<open>0 / 0\<close>, the
  constraint term is \<open>NaN\<close> (not 1.0) and so is the result of
  \<open>calculateCompositeConfidence\<close>, for every inventory and every stored memory.
\<close>

theorem calculateCompositeConfidence_no_references:
  "ingredients_used protocol = [] \<Longrightarrow>
     constraintSatisfaction unicode mlInventory protocol = NaN
     \<and> calculateCompositeConfidence unicode saved mlInventory protocol = NaN"
  by (simp add: calculateCompositeConfidence_def constraintSatisfaction_no_references
      compositeScore_NaN_constraint)

theorem calculateCompositeConfidence_no_references_witness:
  "ingredients_used (a_protocol [] 5) = []
   \<and> constraintSatisfaction unicode_unchanged [tomato (6 / 10)] (a_protocol [] 5) = NaN
   \<and> calculateCompositeConfidence unicode_unchanged None [tomato (6 / 10)] (a_protocol [] 5) = NaN"
proof -
  have h: "ingredients_used (a_protocol [] 5) = []"
    by (simp add: a_protocol_def)
  show ?thesis
    using h calculateCompositeConfidence_no_references[OF h, of unicode_unchanged "[tomato (6 / 10)]" None]
    by simp
qed

text \<open>
  The weighted sum in binary64. With the perception and constraint terms in \<open>[0,1]\<close>,
  the value handed to \<open>Math.round\<close> is within \<open>2\<^sup>-\<^sup>4\<^sup>3\<close> of the exact value of
  \<open>100 * (0.5 * perception + 0.3 * coherence + 0.2 * constraint)\<close>, where the coherence
  is 1 or the exact 0.7.
\<close>

lemma fl_half: "fl (5 / 10) = Num (1 / 2)"
  by code_simp

lemma compositeScore_error:
  assumes p: "0 \<le> p" "p \<le> 1" and c: "0 \<le> c" "c \<le> 1"
    and g: "gemini = Num 1 \<and> G = 1 \<or> gemini = fl (7 / 10) \<and> G = 7 / 10"
  shows "\<exists>y. compositeScore (Num p) gemini (Num c) = Num (of_int \<lfloor>y + 1 / 2\<rfloor>)
             \<and> \<bar>y - 100 * (5 / 10 * p + 3 / 10 * G + 2 / 10 * c)\<bar> \<le> 1 / 2 ^ 43"
proof -
  define u :: rat where "u = 1 / 2 ^ 53"
  have u: "0 < u" "u \<le> 1 / 1000" "1 / 2 ^ 47 = 64 * u" "1024 * u = 1 / 2 ^ 43"
    by (simp_all add: u_def)
  obtain t3 where t3: "fl (3 / 10) = Num t3" "\<bar>t3 - 3 / 10\<bar> \<le> u"
    using fl_error_2[of "3 / 10"] by (auto simp add: u_def)
  obtain t2 where t2: "fl (2 / 10) = Num t2" "\<bar>t2 - 2 / 10\<bar> \<le> u"
    using fl_error_2[of "2 / 10"] by (auto simp add: u_def)
  obtain t7 where t7: "fl (7 / 10) = Num t7" "\<bar>t7 - 7 / 10\<bar> \<le> u"
    using fl_error_2[of "7 / 10"] by (auto simp add: u_def)
  obtain g0 where g0: "gemini = Num g0" "\<bar>g0 - G\<bar> \<le> u" "0 \<le> G" "G \<le> 1"
    using g t7 u by auto
  \<comment> \<open>the three products\<close>
  have "\<bar>1 / 2 * p\<bar> < 2" using p by simp
  then obtain a1 where a1: "fl (1 / 2 * p) = Num a1" "\<bar>a1 - 1 / 2 * p\<bar> \<le> u"
    using fl_error_2[of "1 / 2 * p"] by (auto simp add: u_def)
  have t3g: "\<bar>t3 * g0 - 3 / 10 * G\<bar> \<le> 2 * u"
  proof -
    have "t3 * g0 - 3 / 10 * G = t3 * (g0 - G) + G * (t3 - 3 / 10)"
      by (simp add: algebra_simps)
    moreover have "\<bar>t3 * (g0 - G)\<bar> \<le> 1 * u"
      unfolding abs_mult using t3(2) g0(2) u by (intro mult_mono) (simp_all add: abs_le_iff)
    moreover have "\<bar>G * (t3 - 3 / 10)\<bar> \<le> 1 * u"
      unfolding abs_mult using t3(2) g0(3,4) by (intro mult_mono) simp_all
    ultimately show ?thesis by (simp add: abs_le_iff) 
  qed
  have "\<bar>t3 * g0\<bar> < 2" using t3g g0(3,4) u by (simp add: abs_le_iff abs_less_iff)
  then obtain a2 where a2: "fl (t3 * g0) = Num a2" "\<bar>a2 - t3 * g0\<bar> \<le> u"
    using fl_error_2[of "t3 * g0"] by (auto simp add: u_def)
  have t2c: "\<bar>t2 * c - 2 / 10 * c\<bar> \<le> u"
  proof -
    have "t2 * c - 2 / 10 * c = (t2 - 2 / 10) * c" by (simp add: algebra_simps)
    moreover have "\<bar>(t2 - 2 / 10) * c\<bar> \<le> u * 1"
      unfolding abs_mult using t2(2) c u by (intro mult_mono) simp_all
    ultimately show ?thesis by simp
  qed
  have "\<bar>t2 * c\<bar> < 2" using t2c c u by (simp add: abs_le_iff abs_less_iff)
  then obtain a3 where a3: "fl (t2 * c) = Num a3" "\<bar>a3 - t2 * c\<bar> \<le> u"
    using fl_error_2[of "t2 * c"] by (auto simp add: u_def)
  \<comment> \<open>the two sums\<close>
  have e1: "\<bar>a1 - 5 / 10 * p\<bar> \<le> u" using a1(2) by simp
  have e2: "\<bar>a2 - 3 / 10 * G\<bar> \<le> 3 * u" using a2(2) t3g by (simp add: abs_le_iff)
  have e3: "\<bar>a3 - 2 / 10 * c\<bar> \<le> 2 * u" using a3(2) t2c by (simp add: abs_le_iff)
  have "\<bar>a1 + a2\<bar> < 2" using e1 e2 p g0(3,4) u by (simp add: abs_le_iff abs_less_iff)
  then obtain s1 where s1: "fl (a1 + a2) = Num s1" "\<bar>s1 - (a1 + a2)\<bar> \<le> u"
    using fl_error_2[of "a1 + a2"] by (auto simp add: u_def)
  have e4: "\<bar>s1 - (5 / 10 * p + 3 / 10 * G)\<bar> \<le> 5 * u"
    using s1(2) e1 e2 by (simp add: abs_le_iff)
  have "\<bar>s1 + a3\<bar> < 2" using e4 e3 p c g0(3,4) u by (simp add: abs_le_iff abs_less_iff)
  then obtain s2 where s2: "fl (s1 + a3) = Num s2" "\<bar>s2 - (s1 + a3)\<bar> \<le> u"
    using fl_error_2[of "s1 + a3"] by (auto simp add: u_def)
  have e5: "\<bar>s2 - (5 / 10 * p + 3 / 10 * G + 2 / 10 * c)\<bar> \<le> 8 * u"
    using s2(2) e4 e3 by (simp add: abs_le_iff)
  \<comment> \<open>the product with 100\<close>
  have "\<bar>s2 * 100\<bar> < 128" using e5 p c g0(3,4) u by (simp add: abs_le_iff abs_less_iff)
  then obtain y where y: "fl (s2 * 100) = Num y" "\<bar>y - s2 * 100\<bar> \<le> 64 * u"
    using fl_error_128[of "s2 * 100"] u(3) by auto
  have e6: "\<bar>y - 100 * (5 / 10 * p + 3 / 10 * G + 2 / 10 * c)\<bar> \<le> 1024 * u"
    using y(2) e5 u(1) by (simp add: abs_le_iff)
  have "compositeScore (Num p) gemini (Num c) = Num (of_int \<lfloor>y + 1 / 2\<rfloor>)"
    by (simp only: compositeScore_def Let_def fl_half t3(1) t2(1) g0(1) js_mul.simps
        js_add.simps js_round.simps a1(1) a2(1) a3(1) s1(1) s2(1) y(1))
  with e6 u(4) show ?thesis by auto
qed

text \<open>
  On the domain of the data model the flaw above is the only one: when every confidence is
  in \<open>[0,1]\<close>, the memory holds counts (and no name is an inherited member), there are at
  most \<open>2\<^sup>5\<^sup>2\<close> ingredients and the protocol references at least one ingredient, the
  result is an integer between 0 and 100. An empty inventory has perception term 1.
\<close>

lemma mlConfidence_empty: "mlConfidence unicode saved [] = Num 1"
  by (simp add: mlConfidence_def mlConfidenceSum_def js_or_def)

lemma adjustedConfidence_unit:
  assumes "unit_confidence i" and "count_memory memory (toLowerCaseIn unicode (name i))"
  shows "\<exists>a. adjustedConfidence unicode memory i = Num a \<and> 0 \<le> a \<and> a \<le> 1"
proof -
  obtain c where c: "confidence i = Num c" "0 \<le> c" "c \<le> 1"
    using assms(1) by (auto simp add: unit_confidence_def split: jsnum.splits)
  obtain d where d: "fl (85 / 100) = Num d" "0 \<le> d" "d \<le> 1"
    using fl_unit[of "85 / 100"] by auto
  have "\<exists>sc. (if verificationStatus i = Some confirmed
                   then js_max (confidence i) (fl (85 / 100)) else confidence i) = Num sc
             \<and> 0 \<le> sc \<and> sc \<le> 1"
    using c d by auto
  then obtain sc where sc: "(if verificationStatus i = Some confirmed
                   then js_max (confidence i) (fl (85 / 100)) else confidence i) = Num sc"
      "0 \<le> sc" "sc \<le> 1"
    by blast
  have "\<exists>r. remembered memory (toLowerCaseIn unicode (name i)) = Num r \<and> 0 \<le> r"
    using assms(2)
    by (cases "memory (toLowerCaseIn unicode (name i))")
       (auto simp add: count_memory_def remembered_def js_or_def split: jsnum.splits)
  then obtain r where r: "remembered memory (toLowerCaseIn unicode (name i)) = Num r" "0 \<le> r"
    by blast
  obtain t where t: "fl (2 / 100) = Num t" "0 \<le> t"
    using fl_unit[of "2 / 100"] by auto
  obtain d1 where d1: "fl (10 / 100) = Num d1" "0 \<le> d1" "d1 \<le> 1"
    using fl_unit[of "10 / 100"] by auto
  have "0 \<le> r * t" using r t by simp
  then have "\<exists>b. js_min (fl (r * t)) (Num d1) = Num b \<and> 0 \<le> b \<and> b \<le> 1"
    using fl_nonneg[of "r * t"] d1 by auto
  then obtain b where b: "js_min (fl (r * t)) (Num d1) = Num b" "0 \<le> b" "b \<le> 1"
    by blast
  have "0 \<le> sc + b" "sc + b \<le> of_int 2" using sc b by simp_all
  then obtain s where s: "fl (sc + b) = Num s" "0 \<le> s"
    using fl_between[of "sc + b" 2] by auto
  have "adjustedConfidence unicode memory i = Num (min s 1)"
    by (simp only: adjustedConfidence_def Let_def sc(1) r(1) t(1) d1(1) js_mul.simps b(1)
        js_add.simps s(1) js_min.simps)
  with s show ?thesis by simp
qed

lemma mlConfidenceSum_bounds:
  assumes "list_all unit_confidence mlInventory"
    and "list_all (\<lambda>i. count_memory memory (toLowerCaseIn unicode (name i))) mlInventory"
    and "0 \<le> t0" "t0 \<le> of_nat k" "k + length mlInventory \<le> N" "int N \<le> 2 ^ 52"
  shows "\<exists>t. foldl (\<lambda>acc cur. js_add acc (adjustedConfidence unicode memory cur)) (Num t0) mlInventory = Num t
             \<and> 0 \<le> t \<and> t \<le> of_nat (k + length mlInventory)"
  using assms
proof (induction mlInventory arbitrary: t0 k)
  case Nil
  then show ?case by simp
next
  case (Cons i mlInventory)
  obtain a where a: "adjustedConfidence unicode memory i = Num a" "0 \<le> a" "a \<le> 1"
    using Cons.prems(1,2) adjustedConfidence_unit[of i memory unicode] by auto
  have k: "Suc k + length mlInventory \<le> N"
    using Cons.prems(5) by simp
  then have "int (Suc k) \<le> int N"
    by simp
  then have m: "int (Suc k) \<le> 2 ^ 52"
    using Cons.prems(6) by (rule order_trans)
  have "t0 + a \<le> of_nat k + 1"
    using Cons.prems(4) a(3) by (rule add_mono)
  then have "0 \<le> t0 + a" "t0 + a \<le> of_int (int (Suc k))"
    using Cons.prems(3) a(2) by simp_all
  then obtain t1 where t1: "fl (t0 + a) = Num t1" "0 \<le> t1" "t1 \<le> of_int (int (Suc k))"
    using fl_between[OF _ _ m, of "t0 + a"] by blast
  have t1': "t1 \<le> of_nat (Suc k)"
    using t1(3) by simp
  have l: "list_all unit_confidence mlInventory"
      "list_all (\<lambda>i. count_memory memory (toLowerCaseIn unicode (name i))) mlInventory"
    using Cons.prems(1,2) by simp_all
  have "\<exists>t. foldl (\<lambda>acc cur. js_add acc (adjustedConfidence unicode memory cur)) (Num t1) mlInventory = Num t
             \<and> 0 \<le> t \<and> t \<le> of_nat (Suc k + length mlInventory)"
    using l t1(2) t1' k Cons.prems(6) by (rule Cons.IH)
  then show ?case by (simp add: a(1) t1(1))
qed

lemma mlConfidence_unit:
  assumes "list_all unit_confidence mlInventory"
    and "list_all (\<lambda>i. count_memory (memoryOf saved) (toLowerCaseIn unicode (name i))) mlInventory"
    and "int (length mlInventory) \<le> 2 ^ 52"
  shows "\<exists>p. mlConfidence unicode saved mlInventory = Num p \<and> 0 \<le> p \<and> p \<le> 1"
proof (cases "mlInventory = []")
  case True
  then show ?thesis by (simp add: mlConfidence_empty)
next
  case False
  then have len: "0 < (of_nat (length mlInventory) :: rat)" by simp
  obtain t where t: "mlConfidenceSum unicode (memoryOf saved) mlInventory = Num t" "0 \<le> t"
      "t \<le> of_nat (length mlInventory)"
    using mlConfidenceSum_bounds[OF assms(1,2) _ _ _ assms(3), of 0 0]
    by (auto simp add: mlConfidenceSum_def)
  have "0 \<le> t / of_nat (length mlInventory)" "t / of_nat (length mlInventory) \<le> 1"
    using t len by (simp_all add: divide_le_eq)
  then obtain v where v: "fl (t / of_nat (length mlInventory)) = Num v" "0 \<le> v" "v \<le> 1"
    using fl_unit by blast
  with t len show ?thesis
    by (auto simp add: mlConfidence_def js_or_def)
qed

lemma hallucinations_le:
  "hallucinations unicode mlInventory protocol \<le> length (ingredients_used protocol)"
  by (simp add: hallucinations_def Let_def)

lemma constraintSatisfaction_unit:
  assumes "ingredients_used protocol \<noteq> []"
  shows "\<exists>c. constraintSatisfaction unicode mlInventory protocol = Num c \<and> 0 \<le> c \<and> c \<le> 1"
proof -
  let ?h = "of_nat (hallucinations unicode mlInventory protocol) :: rat"
  let ?n = "of_nat (length (ingredients_used protocol)) :: rat"
  have len: "0 < ?n" using assms by simp
  have "?h \<le> ?n"
    using hallucinations_le[of unicode mlInventory protocol] by (simp only: of_nat_le_iff)
  then have "?h / ?n \<le> 1" using len by (simp add: divide_le_eq)
  moreover have "0 \<le> ?h / ?n" by simp
  ultimately obtain t where t: "fl (?h / ?n) = Num t" "0 \<le> t" "t \<le> 1"
    using fl_unit by blast
  then obtain w where w: "fl (1 + - t) = Num w" "0 \<le> w" "w \<le> 1"
    using fl_unit[of "1 + - t"] by auto
  show ?thesis
    using len t w by (auto simp add: constraintSatisfaction_def js_sub_def)
qed

lemma geminiCoherence_cases:
  "geminiCoherence protocol = Num 1 \<and> (if length (instructions protocol) > 3 then 1 else 7 / 10) = (1::rat)
   \<or> geminiCoherence protocol = fl (7 / 10)
     \<and> (if length (instructions protocol) > 3 then 1 else 7 / 10) = (7 / 10 :: rat)"
  by (simp add: geminiCoherence_def)

lemma abs_diff_bounds: "\<bar>y - e\<bar> \<le> d \<Longrightarrow> e - d \<le> y \<and> y \<le> e + (d::rat)"
  by linarith

lemma expected_bounds:
  "0 \<le> p \<Longrightarrow> p \<le> 1 \<Longrightarrow> 0 \<le> c \<Longrightarrow> c \<le> 1 \<Longrightarrow> g = 1 \<or> g = 7 / 10 \<Longrightarrow>
   0 \<le> 100 * (5 / 10 * p + 3 / 10 * g + 2 / 10 * c)
   \<and> 100 * (5 / 10 * p + 3 / 10 * g + 2 / 10 * c) \<le> (100::rat)"
  by auto

lemma round_close_bounds:
  "0 \<le> e \<Longrightarrow> e \<le> 100 \<Longrightarrow> 0 \<le> round (e - 1 / 2 ^ 43 :: rat) \<and> round (e + 1 / 2 ^ 43) \<le> 100"
  unfolding round_def by (simp add: le_floor_iff floor_le_iff)

lemma calculateCompositeConfidence_close:
  assumes "mlConfidence unicode saved mlInventory = Num p" "0 \<le> p" "p \<le> 1"
    and "constraintSatisfaction unicode mlInventory protocol = Num c" "0 \<le> c" "c \<le> 1"
  shows "\<exists>n. calculateCompositeConfidence unicode saved mlInventory protocol = Num (of_int n)
     \<and> round (100 * (5 / 10 * p + 3 / 10 * (if length (instructions protocol) > 3 then 1 else 7 / 10)
                       + 2 / 10 * c) - 1 / 2 ^ 43) \<le> n
     \<and> n \<le> round (100 * (5 / 10 * p + 3 / 10 * (if length (instructions protocol) > 3 then 1 else 7 / 10)
                       + 2 / 10 * c) + 1 / 2 ^ 43)"
proof -
  let ?G = "if length (instructions protocol) > 3 then 1 else 7 / 10 :: rat"
  let ?E = "100 * (5 / 10 * p + 3 / 10 * ?G + 2 / 10 * c)"
  obtain y where y: "compositeScore (Num p) (geminiCoherence protocol) (Num c) = Num (of_int \<lfloor>y + 1 / 2\<rfloor>)"
      "\<bar>y - ?E\<bar> \<le> 1 / 2 ^ 43"
    using compositeScore_error[OF assms(2,3,5,6) geminiCoherence_cases[of protocol]] by blast
  have "round (?E - 1 / 2 ^ 43) \<le> round y" "round y \<le> round (?E + 1 / 2 ^ 43)"
    using abs_diff_bounds[OF y(2)] by (blast intro: round_mono)+
  moreover have "calculateCompositeConfidence unicode saved mlInventory protocol = Num (of_int (round y))"
    by (simp only: calculateCompositeConfidence_def assms(1,4) y(1) round_def)
  ultimately show ?thesis by blast
qed

lemma calculateCompositeConfidence_range:
  assumes "list_all unit_confidence mlInventory"
    and "list_all (\<lambda>i. count_memory (memoryOf saved) (toLowerCaseIn unicode (name i))) mlInventory"
    and "int (length mlInventory) \<le> 2 ^ 52"
    and "ingredients_used protocol \<noteq> []"
  shows "\<exists>n. calculateCompositeConfidence unicode saved mlInventory protocol = Num (of_int n)
           \<and> 0 \<le> n \<and> n \<le> 100"
proof -
  obtain p where p: "mlConfidence unicode saved mlInventory = Num p" "0 \<le> p" "p \<le> 1"
    using mlConfidence_unit[OF assms(1,2,3)] by blast
  obtain c where c: "constraintSatisfaction unicode mlInventory protocol = Num c" "0 \<le> c" "c \<le> 1"
    using constraintSatisfaction_unit[OF assms(4)] by blast
  let ?G = "if length (instructions protocol) > 3 then 1 else 7 / 10 :: rat"
  let ?E = "100 * (5 / 10 * p + 3 / 10 * ?G + 2 / 10 * c)"
  obtain n where n: "calculateCompositeConfidence unicode saved mlInventory protocol = Num (of_int n)"
      "round (?E - 1 / 2 ^ 43) \<le> n" "n \<le> round (?E + 1 / 2 ^ 43)"
    using calculateCompositeConfidence_close[OF p c] by blast
  have "?G = 1 \<or> ?G = 7 / 10" by simp
  then have "0 \<le> ?E \<and> ?E \<le> 100"
    by (rule expected_bounds[OF p(2,3) c(2,3)])
  then have "0 \<le> round (?E - 1 / 2 ^ 43) \<and> round (?E + 1 / 2 ^ 43) \<le> 100"
    by (intro round_close_bounds) simp_all
  then show ?thesis using n by (intro exI[of _ n]) simp
qed

lemma calculateCompositeConfidence_range_example:
  "list_all unit_confidence [tomato (6 / 10)]
   \<and> list_all (\<lambda>i. count_memory (memoryOf None) (toLowerCaseIn unicode_unchanged (name i)))
        [tomato (6 / 10)]
   \<and> int (length [tomato (6 / 10)]) \<le> 2 ^ 52
   \<and> ingredients_used (a_protocol [''tomato''] 5) \<noteq> []"
proof -
  have "unit_confidence (tomato (6 / 10))"
    by code_simp
  moreover have "count_memory (memoryOf None) (toLowerCaseIn unicode_unchanged (name (tomato (6 / 10))))"
    by code_simp
  ultimately show ?thesis
    by (simp add: a_protocol_def)
qed

text \<open>
  C5, as stated, fails: the code evaluates the formula in binary64, and its result is not
  always the rounding of the exact value. For the single unconfirmed ingredient
  \<open>tomato\<close> of confidence 0.07, no memory, and a protocol of five instructions that
  references only \<open>tomato\<close>, the terms are the double nearest 0.07, 1.0 and 1.0. The exact
  value of \<open>100 * (0.5 * perception + 0.3 * 1.0 + 0.2 * 1.0)\<close> rounds to 54, whether
  the perception is read as that double or as the decimal 0.07; the code returns 53.
\<close>

theorem calculateCompositeConfidence_exact_rounding_counterexample:
  "calculateCompositeConfidence unicode_unchanged None [tomato (7 / 100)] (a_protocol [''tomato''] 5)
     = Num 53
   \<and> mlConfidence unicode_unchanged None [tomato (7 / 100)]
     = Num (1261007895663739 / 18014398509481984)
   \<and> geminiCoherence (a_protocol [''tomato''] 5) = Num 1
   \<and> constraintSatisfaction unicode_unchanged [tomato (7 / 100)] (a_protocol [''tomato''] 5) = Num 1
   \<and> round (100 * (5 / 10 * (1261007895663739 / 18014398509481984) + 3 / 10 * 1 + 2 / 10 * 1) :: rat)
     = 54
   \<and> round (100 * (5 / 10 * (7 / 100) + 3 / 10 * 1 + 2 / 10 * 1) :: rat) = 54"
proof -
  have "calculateCompositeConfidence unicode_unchanged None [tomato (7 / 100)]
      (a_protocol [''tomato''] 5) = Num 53"
    by code_simp
  moreover have "mlConfidence unicode_unchanged None [tomato (7 / 100)]
     = Num (1261007895663739 / 18014398509481984)"
    by code_simp
  moreover have "geminiCoherence (a_protocol [''tomato''] 5) = Num 1"
    by code_simp
  moreover have "constraintSatisfaction unicode_unchanged [tomato (7 / 100)]
      (a_protocol [''tomato''] 5) = Num 1"
    by code_simp
  moreover have "round (100 * (5 / 10 * (1261007895663739 / 18014398509481984) + 3 / 10 * 1
      + 2 / 10 * 1) :: rat) = 54"
    unfolding round_def by code_simp
  moreover have "round (100 * (5 / 10 * (7 / 100) + 3 / 10 * 1 + 2 / 10 * 1) :: rat) = 54"
    unfolding round_def by code_simp
  ultimately show ?thesis by blast
qed

text \<open>
  C5, amended. \<open>calculateCompositeConfidence\<close> evaluates
  \<open>round(100 * (0.5 * perception + 0.3 * coherence + 0.2 * constraint))\<close> in binary64,
  each product and sum rounded to the nearest double; the coherence term is 1.0 for a
  protocol of more than three instructions and the double nearest 0.7 otherwise. When the
  perception and constraint terms are numbers in \<open>[0,1]\<close>, the result is an integer
  \<open>n\<close> with \<open>round (E - 2\<^sup>-\<^sup>4\<^sup>3) \<le> n \<le> round (E + 2\<^sup>-\<^sup>4\<^sup>3)\<close>, where \<open>E\<close> is
  the exact value of the formula on these terms (coherence 1 or 0.7): it is the rounding
  of the exact value unless that lies within \<open>2\<^sup>-\<^sup>4\<^sup>3\<close> of a half-integer. For the
  single unconfirmed ingredient \<open>tomato\<close> of confidence 0.6, no memory, and a protocol of
  five instructions that references only \<open>tomato\<close>, the terms are the double nearest 0.6,
  1.0 and 1.0 and the result is 80.

  The perception term on further inventories: a confirmed ingredient counts as at least
  0.85 (result 93); three remembered confirmations add 0.06 (83); nine add the capped
  0.10 (85); the adjusted confidence is capped at 1.0 (100); two ingredients are averaged,
  names are compared in lower case and an unperceived reference lowers the constraint
  term (69, with three instructions).
\<close>

theorem calculateCompositeConfidence_binary64:
  "calculateCompositeConfidence unicode saved mlInventory protocol =
     js_round (js_mul
       (js_add (js_add (js_mul (fl (5 / 10)) (mlConfidence unicode saved mlInventory))
                       (js_mul (fl (3 / 10)) (geminiCoherence protocol)))
               (js_mul (fl (2 / 10)) (constraintSatisfaction unicode mlInventory protocol)))
       (Num 100))
   \<and> geminiCoherence protocol = (if length (instructions protocol) > 3 then Num 1 else fl (7 / 10))
   \<and> fl (7 / 10) = Num (3152519739159347 / 4503599627370496)
   \<and> (mlConfidence unicode saved mlInventory = Num p \<and> 0 \<le> p \<and> p \<le> 1
      \<and> constraintSatisfaction unicode mlInventory protocol = Num c \<and> 0 \<le> c \<and> c \<le> 1 \<longrightarrow>
        (\<exists>n. calculateCompositeConfidence unicode saved mlInventory protocol = Num (of_int n)
           \<and> round (100 * (5 / 10 * p
                            + 3 / 10 * (if length (instructions protocol) > 3 then 1 else 7 / 10)
                            + 2 / 10 * c) - 1 / 2 ^ 43) \<le> n
           \<and> n \<le> round (100 * (5 / 10 * p
                            + 3 / 10 * (if length (instructions protocol) > 3 then 1 else 7 / 10)
                            + 2 / 10 * c) + 1 / 2 ^ 43)))
   \<and> mlConfidence unicode None [tomato (6 / 10)] = fl (6 / 10)
   \<and> geminiCoherence (a_protocol [''tomato''] 5) = Num 1
   \<and> constraintSatisfaction unicode [tomato (6 / 10)] (a_protocol [''tomato''] 5) = Num 1
   \<and> calculateCompositeConfidence unicode None [tomato (6 / 10)] (a_protocol [''tomato''] 5) = Num 80
   \<and> mlConfidence unicode None [(tomato (6 / 10))\<lparr>verificationStatus := Some confirmed\<rparr>]
       = fl (85 / 100)
   \<and> calculateCompositeConfidence unicode None
        [(tomato (6 / 10))\<lparr>verificationStatus := Some confirmed\<rparr>] (a_protocol [''tomato''] 5)
       = Num 93
   \<and> mlConfidence unicode (remembers_tomato 3) [tomato (6 / 10)]
       = Num (2972375754064527 / 4503599627370496)
   \<and> calculateCompositeConfidence unicode (remembers_tomato 3) [tomato (6 / 10)]
        (a_protocol [''tomato''] 5) = Num 83
   \<and> mlConfidence unicode (remembers_tomato 9) [tomato (6 / 10)] = fl (7 / 10)
   \<and> calculateCompositeConfidence unicode (remembers_tomato 9) [tomato (6 / 10)]
        (a_protocol [''tomato''] 5) = Num 85
   \<and> mlConfidence unicode (remembers_tomato 9) [tomato (95 / 100)] = Num 1
   \<and> calculateCompositeConfidence unicode (remembers_tomato 9) [tomato (95 / 100)]
        (a_protocol [''tomato''] 5) = Num 100
   \<and> mlConfidence unicode None [tomato (6 / 10), basil (8 / 10)] = fl (7 / 10)
   \<and> constraintSatisfaction unicode [tomato (6 / 10), basil (8 / 10)]
        (a_protocol [''Tomato'', ''BASIL'', ''salt''] 3) = Num (3002399751580331 / 4503599627370496)
   \<and> calculateCompositeConfidence unicode None [tomato (6 / 10), basil (8 / 10)]
        (a_protocol [''Tomato'', ''BASIL'', ''salt''] 3) = Num 69"
proof -
  have unfolded: "calculateCompositeConfidence unicode saved mlInventory protocol =
     js_round (js_mul
       (js_add (js_add (js_mul (fl (5 / 10)) (mlConfidence unicode saved mlInventory))
                       (js_mul (fl (3 / 10)) (geminiCoherence protocol)))
               (js_mul (fl (2 / 10)) (constraintSatisfaction unicode mlInventory protocol)))
       (Num 100))"
    by (simp only: calculateCompositeConfidence_def compositeScore_def Let_def)
  have coherence: "geminiCoherence protocol =
      (if length (instructions protocol) > 3 then Num 1 else fl (7 / 10))"
    by (simp only: geminiCoherence_def)
  have seven: "fl (7 / 10) = Num (3152519739159347 / 4503599627370496)"
    by code_simp
  have close: "mlConfidence unicode saved mlInventory = Num p \<and> 0 \<le> p \<and> p \<le> 1
      \<and> constraintSatisfaction unicode mlInventory protocol = Num c \<and> 0 \<le> c \<and> c \<le> 1 \<longrightarrow>
        (\<exists>n. calculateCompositeConfidence unicode saved mlInventory protocol = Num (of_int n)
           \<and> round (100 * (5 / 10 * p
                            + 3 / 10 * (if length (instructions protocol) > 3 then 1 else 7 / 10)
                            + 2 / 10 * c) - 1 / 2 ^ 43) \<le> n
           \<and> n \<le> round (100 * (5 / 10 * p
                            + 3 / 10 * (if length (instructions protocol) > 3 then 1 else 7 / 10)
                            + 2 / 10 * c) + 1 / 2 ^ 43))"
    using calculateCompositeConfidence_close[of unicode saved mlInventory p protocol c] by blast
  have a1: "mlConfidence unicode None [tomato (6 / 10)] = fl (6 / 10)"
    by code_simp
  have a2: "geminiCoherence (a_protocol [''tomato''] 5) = Num 1"
    by code_simp
  have a3: "constraintSatisfaction unicode [tomato (6 / 10)] (a_protocol [''tomato''] 5) = Num 1"
    by code_simp
  have a4: "calculateCompositeConfidence unicode None [tomato (6 / 10)] (a_protocol [''tomato''] 5)
      = Num 80"
    by code_simp
  have b1: "mlConfidence unicode None [(tomato (6 / 10))\<lparr>verificationStatus := Some confirmed\<rparr>]
       = fl (85 / 100)"
    by code_simp
  have b2: "calculateCompositeConfidence unicode None
        [(tomato (6 / 10))\<lparr>verificationStatus := Some confirmed\<rparr>] (a_protocol [''tomato''] 5)
       = Num 93"
    by code_simp
  have c1: "mlConfidence unicode (remembers_tomato 3) [tomato (6 / 10)]
       = Num (2972375754064527 / 4503599627370496)"
    by code_simp
  have c2: "calculateCompositeConfidence unicode (remembers_tomato 3) [tomato (6 / 10)]
        (a_protocol [''tomato''] 5) = Num 83"
    by code_simp
  have d1: "mlConfidence unicode (remembers_tomato 9) [tomato (6 / 10)] = fl (7 / 10)"
    by code_simp
  have d2: "calculateCompositeConfidence unicode (remembers_tomato 9) [tomato (6 / 10)]
        (a_protocol [''tomato''] 5) = Num 85"
    by code_simp
  have e1: "mlConfidence unicode (remembers_tomato 9) [tomato (95 / 100)] = Num 1"
    by code_simp
  have e2: "calculateCompositeConfidence unicode (remembers_tomato 9) [tomato (95 / 100)]
        (a_protocol [''tomato''] 5) = Num 100"
    by code_simp
  have f1: "mlConfidence unicode None [tomato (6 / 10), basil (8 / 10)] = fl (7 / 10)"
    by code_simp
  have f2: "constraintSatisfaction unicode [tomato (6 / 10), basil (8 / 10)]
        (a_protocol [''Tomato'', ''BASIL'', ''salt''] 3) = Num (3002399751580331 / 4503599627370496)"
    by code_simp
  have f3: "calculateCompositeConfidence unicode None [tomato (6 / 10), basil (8 / 10)]
        (a_protocol [''Tomato'', ''BASIL'', ''salt''] 3) = Num 69"
    by code_simp
  show ?thesis
    by (intro conjI unfolded coherence seven close a1 a2 a3 a4 b1 b2 c1 c2 d1 d2 e1 e2 f1 f2 f3)
qed

text \<open>
  Scenario B: the protocol also references an ingredient that was not perceived. The
  bounds of the theorem meet, and give the result 70.
\<close>

theorem calculateCompositeConfidence_binary64_witness:
  "mlConfidence unicode_unchanged None [tomato (6 / 10)]
     = Num (5404319552844595 / 9007199254740992)
   \<and> constraintSatisfaction unicode_unchanged [tomato (6 / 10)]
       (a_protocol [''tomato'', ''unicorn-meat''] 5) = Num (1 / 2)
   \<and> calculateCompositeConfidence unicode_unchanged None [tomato (6 / 10)]
       (a_protocol [''tomato'', ''unicorn-meat''] 5) = Num 70"
proof -
  let ?P = "5404319552844595 / 9007199254740992 :: rat"
  let ?protocol = "a_protocol [''tomato'', ''unicorn-meat''] 5"
  have p: "mlConfidence unicode_unchanged None [tomato (6 / 10)] = Num ?P"
    by code_simp
  have c: "constraintSatisfaction unicode_unchanged [tomato (6 / 10)] ?protocol = Num (1 / 2)"
    by code_simp
  have steps: "(if length (instructions ?protocol) > 3 then 1 else 7 / 10 :: rat) = 1"
    by (simp add: a_protocol_def)
  have lo: "round (100 * (5 / 10 * ?P + 3 / 10 * 1 + 2 / 10 * (1 / 2)) - 1 / 2 ^ 43) = 70"
    unfolding round_def by code_simp
  have hi: "round (100 * (5 / 10 * ?P + 3 / 10 * 1 + 2 / 10 * (1 / 2)) + 1 / 2 ^ 43) = 70"
    unfolding round_def by code_simp
  have hyp: "mlConfidence unicode_unchanged None [tomato (6 / 10)] = Num ?P \<and> 0 \<le> ?P \<and> ?P \<le> 1
      \<and> constraintSatisfaction unicode_unchanged [tomato (6 / 10)] ?protocol = Num (1 / 2)
      \<and> 0 \<le> (1 / 2 :: rat) \<and> (1 / 2 :: rat) \<le> 1"
    using p c by simp
  have "mlConfidence unicode_unchanged None [tomato (6 / 10)] = Num ?P \<and> 0 \<le> ?P \<and> ?P \<le> 1
      \<and> constraintSatisfaction unicode_unchanged [tomato (6 / 10)] ?protocol = Num (1 / 2)
      \<and> 0 \<le> (1 / 2 :: rat) \<and> (1 / 2 :: rat) \<le> 1 \<longrightarrow>
        (\<exists>n. calculateCompositeConfidence unicode_unchanged None [tomato (6 / 10)] ?protocol
              = Num (of_int n)
           \<and> round (100 * (5 / 10 * ?P
                            + 3 / 10 * (if length (instructions ?protocol) > 3 then 1 else 7 / 10)
                            + 2 / 10 * (1 / 2)) - 1 / 2 ^ 43) \<le> n
           \<and> n \<le> round (100 * (5 / 10 * ?P
                            + 3 / 10 * (if length (instructions ?protocol) > 3 then 1 else 7 / 10)
                            + 2 / 10 * (1 / 2)) + 1 / 2 ^ 43))"
    using calculateCompositeConfidence_binary64[of unicode_unchanged None "[tomato (6 / 10)]"
        ?protocol ?P "1 / 2"]
    by (elim conjE) assumption
  from this hyp obtain n where n:
      "calculateCompositeConfidence unicode_unchanged None [tomato (6 / 10)] ?protocol = Num (of_int n)"
      "round (100 * (5 / 10 * ?P
                     + 3 / 10 * (if length (instructions ?protocol) > 3 then 1 else 7 / 10)
                     + 2 / 10 * (1 / 2)) - 1 / 2 ^ 43) \<le> n"
      "n \<le> round (100 * (5 / 10 * ?P
                     + 3 / 10 * (if length (instructions ?protocol) > 3 then 1 else 7 / 10)
                     + 2 / 10 * (1 / 2)) + 1 / 2 ^ 43)"
    by blast
  have "70 \<le> n" "n \<le> 70"
    using n(2,3) unfolding steps lo hi by simp_all
  then have "n = 70" by simp
  with n(1) p c show ?thesis by simp
qed

text \<open>
  Perception 1 against perception 0. The exact values differ by 50, so the two scores
  differ by 49, 50 or 51; when every reference was perceived they differ by 50.
\<close>

lemma shifted_floor:
  assumes "\<bar>y1 - (e + 50)\<bar> \<le> d" "\<bar>y0 - e\<bar> \<le> d" "2 * d < (1::rat)"
  shows "\<bar>\<lfloor>y1 + 1 / 2\<rfloor> - (\<lfloor>y0 + 1 / 2\<rfloor> + 50)\<bar> \<le> 1"
proof -
  have "y1 < y0 + 51" "y0 + 49 < y1"
    using assms by linarith+
  then have "\<lfloor>y1 + 1 / 2\<rfloor> \<le> \<lfloor>y0 + 1 / 2 + of_int 51\<rfloor>" "\<lfloor>y0 + 1 / 2 + of_int 49\<rfloor> \<le> \<lfloor>y1 + 1 / 2\<rfloor>"
    by (intro floor_mono; simp)+
  then show ?thesis
    by (simp only: floor_add_int) linarith
qed

lemma expected_shift:
  "100 * (5 / 10 * 1 + 3 / 10 * g + 2 / 10 * c) = 100 * (5 / 10 * 0 + 3 / 10 * g + 2 / 10 * c) + (50::rat)"
  by (simp add: algebra_simps)

lemma compositeScore_near_shift:
  assumes c: "0 \<le> c" "c \<le> 1"
  shows "\<exists>n m. compositeScore (Num 1) (geminiCoherence protocol) (Num c) = Num (of_int n)
           \<and> compositeScore (Num 0) (geminiCoherence protocol) (Num c) = Num (of_int m)
           \<and> \<bar>n - (m + 50)\<bar> \<le> 1"
proof -
  let ?G = "if length (instructions protocol) > 3 then 1 else 7 / 10 :: rat"
  obtain y1 where y1: "compositeScore (Num 1) (geminiCoherence protocol) (Num c) = Num (of_int \<lfloor>y1 + 1 / 2\<rfloor>)"
      "\<bar>y1 - 100 * (5 / 10 * 1 + 3 / 10 * ?G + 2 / 10 * c)\<bar> \<le> 1 / 2 ^ 43"
    using compositeScore_error[OF _ _ c geminiCoherence_cases[of protocol], of 1] by auto
  obtain y0 where y0: "compositeScore (Num 0) (geminiCoherence protocol) (Num c) = Num (of_int \<lfloor>y0 + 1 / 2\<rfloor>)"
      "\<bar>y0 - 100 * (5 / 10 * 0 + 3 / 10 * ?G + 2 / 10 * c)\<bar> \<le> 1 / 2 ^ 43"
    using compositeScore_error[OF _ _ c geminiCoherence_cases[of protocol], of 0] by auto
  have "\<bar>\<lfloor>y1 + 1 / 2\<rfloor> - (\<lfloor>y0 + 1 / 2\<rfloor> + 50)\<bar> \<le> 1"
    using y1(2)[unfolded expected_shift] y0(2) by (rule shifted_floor) simp
  with y1(1) y0(1) show ?thesis by blast
qed

lemma compositeScore_shift_all_perceived:
  "compositeScore (Num 1) (geminiCoherence protocol) (Num 1) =
     js_add (compositeScore (Num 0) (geminiCoherence protocol) (Num 1)) (Num 50)"
proof -
  have "compositeScore (Num 1) (Num 1) (Num 1) = js_add (compositeScore (Num 0) (Num 1) (Num 1)) (Num 50)"
    by code_simp
  moreover have "compositeScore (Num 1) (fl (7 / 10)) (Num 1) =
      js_add (compositeScore (Num 0) (fl (7 / 10)) (Num 1)) (Num 50)"
    by code_simp
  ultimately show ?thesis
    by (simp add: geminiCoherence_def)
qed

text \<open>
  C10. For the one-element inventory holding an unconfirmed ingredient of confidence 0,
  with no memory, the average of the adjusted confidences is 0, yet the perception term
  \<open>mlConfidence\<close> is 1 (the \<open>|| 1\<close> fallback replaces the zero). For every protocol
  the score is the one computed with perception 1. With the five-step protocol that
  references only \<open>tomato\<close> it is 100 instead of 50; for every protocol whose references
  were all perceived it is 50 more than the score computed with perception 0, and for
  every protocol that references an ingredient it is between 49 and 51 more (78 against 29
  for a three-step protocol with five of eight references not perceived).
\<close>

theorem zero_average_reads_as_one:
  "[tomato 0] \<noteq> []
   \<and> confidence (tomato 0) = Num 0 \<and> verificationStatus (tomato 0) = None
   \<and> memoryOf None (toLowerCaseIn unicode (name (tomato 0))) = None
   \<and> remembered (memoryOf None) (toLowerCaseIn unicode (name (tomato 0))) = Num 0
   \<and> js_div (mlConfidenceSum unicode (memoryOf None) [tomato 0]) (Num (of_nat (length [tomato 0])))
       = Num 0
   \<and> mlConfidence unicode None [tomato 0] = Num 1
   \<and> (\<forall>protocol. calculateCompositeConfidence unicode None [tomato 0] protocol =
         compositeScore (Num 1) (geminiCoherence protocol)
           (constraintSatisfaction unicode [tomato 0] protocol))
   \<and> (\<forall>protocol. constraintSatisfaction unicode [tomato 0] protocol = Num 1 \<longrightarrow>
         calculateCompositeConfidence unicode None [tomato 0] protocol =
           js_add (compositeScore (Num 0) (geminiCoherence protocol)
                     (constraintSatisfaction unicode [tomato 0] protocol)) (Num 50))
   \<and> (\<forall>protocol. ingredients_used protocol \<noteq> [] \<longrightarrow>
         (\<exists>n m. calculateCompositeConfidence unicode None [tomato 0] protocol = Num (of_int n)
            \<and> compositeScore (Num 0) (geminiCoherence protocol)
                 (constraintSatisfaction unicode [tomato 0] protocol) = Num (of_int m)
            \<and> \<bar>n - (m + 50)\<bar> \<le> 1))
   \<and> compositeScore (Num 0) (geminiCoherence (a_protocol [''tomato''] 5))
        (constraintSatisfaction unicode [tomato 0] (a_protocol [''tomato''] 5)) = Num 50
   \<and> calculateCompositeConfidence unicode None [tomato 0] (a_protocol [''tomato''] 5) = Num 100
   \<and> compositeScore (Num 0)
        (geminiCoherence (a_protocol [''tomato'', ''Tomato'', ''TOMATO'', ''salt'', ''oil'', ''garlic'',
           ''onion'', ''pepper''] 3))
        (constraintSatisfaction unicode [tomato 0]
           (a_protocol [''tomato'', ''Tomato'', ''TOMATO'', ''salt'', ''oil'', ''garlic'', ''onion'',
              ''pepper''] 3)) = Num 29
   \<and> calculateCompositeConfidence unicode None [tomato 0]
        (a_protocol [''tomato'', ''Tomato'', ''TOMATO'', ''salt'', ''oil'', ''garlic'', ''onion'',
           ''pepper''] 3) = Num 78"
proof -
  have one: "mlConfidence unicode None [tomato 0] = Num 1"
    by code_simp
  have score: "calculateCompositeConfidence unicode None [tomato 0] protocol =
         compositeScore (Num 1) (geminiCoherence protocol)
           (constraintSatisfaction unicode [tomato 0] protocol)" for protocol
    by (simp only: calculateCompositeConfidence_def one)
  have shift: "constraintSatisfaction unicode [tomato 0] protocol = Num 1 \<longrightarrow>
         calculateCompositeConfidence unicode None [tomato 0] protocol =
           js_add (compositeScore (Num 0) (geminiCoherence protocol)
                     (constraintSatisfaction unicode [tomato 0] protocol)) (Num 50)" for protocol
    by (simp add: score compositeScore_shift_all_perceived)
  have near: "ingredients_used protocol \<noteq> [] \<longrightarrow>
         (\<exists>n m. calculateCompositeConfidence unicode None [tomato 0] protocol = Num (of_int n)
            \<and> compositeScore (Num 0) (geminiCoherence protocol)
                 (constraintSatisfaction unicode [tomato 0] protocol) = Num (of_int m)
            \<and> \<bar>n - (m + 50)\<bar> \<le> 1)" for protocol
  proof
    assume "ingredients_used protocol \<noteq> []"
    then obtain c where c: "constraintSatisfaction unicode [tomato 0] protocol = Num c" "0 \<le> c" "c \<le> 1"
      using constraintSatisfaction_unit by blast
    show "\<exists>n m. calculateCompositeConfidence unicode None [tomato 0] protocol = Num (of_int n)
            \<and> compositeScore (Num 0) (geminiCoherence protocol)
                 (constraintSatisfaction unicode [tomato 0] protocol) = Num (of_int m)
            \<and> \<bar>n - (m + 50)\<bar> \<le> 1"
      unfolding score c(1) using c(2,3) by (rule compositeScore_near_shift)
  qed
  have i1: "[tomato 0] \<noteq> []" by simp
  have i2: "confidence (tomato 0) = Num 0"
    by code_simp
  have i3: "verificationStatus (tomato 0) = None"
    by (simp add: tomato_def)
  have i4: "memoryOf None (toLowerCaseIn unicode (name (tomato 0))) = None"
    by (simp add: memoryOf_def)
  have i5: "remembered (memoryOf None) (toLowerCaseIn unicode (name (tomato 0))) = Num 0"
    by code_simp
  have i6: "js_div (mlConfidenceSum unicode (memoryOf None) [tomato 0])
      (Num (of_nat (length [tomato 0]))) = Num 0"
    by code_simp
  have e1: "compositeScore (Num 0) (geminiCoherence (a_protocol [''tomato''] 5))
        (constraintSatisfaction unicode [tomato 0] (a_protocol [''tomato''] 5)) = Num 50"
    by code_simp
  have e2: "calculateCompositeConfidence unicode None [tomato 0] (a_protocol [''tomato''] 5) = Num 100"
    by code_simp
  have e3: "compositeScore (Num 0)
        (geminiCoherence (a_protocol [''tomato'', ''Tomato'', ''TOMATO'', ''salt'', ''oil'', ''garlic'',
           ''onion'', ''pepper''] 3))
        (constraintSatisfaction unicode [tomato 0]
           (a_protocol [''tomato'', ''Tomato'', ''TOMATO'', ''salt'', ''oil'', ''garlic'', ''onion'',
              ''pepper''] 3)) = Num 29"
    by code_simp
  have e4: "calculateCompositeConfidence unicode None [tomato 0]
        (a_protocol [''tomato'', ''Tomato'', ''TOMATO'', ''salt'', ''oil'', ''garlic'', ''onion'',
           ''pepper''] 3) = Num 78"
    by code_simp
  show ?thesis
    by (intro conjI allI i1 i2 i3 i4 i5 i6 one score shift near e1 e2 e3 e4)
qed

theorem zero_average_reads_as_one_witness:
  "ingredients_used (a_protocol [''tomato''] 3) \<noteq> []
   \<and> constraintSatisfaction unicode_unchanged [tomato 0] (a_protocol [''tomato''] 3) = Num 1
   \<and> compositeScore (Num 0) (geminiCoherence (a_protocol [''tomato''] 3))
        (constraintSatisfaction unicode_unchanged [tomato 0] (a_protocol [''tomato''] 3)) = Num 41
   \<and> calculateCompositeConfidence unicode_unchanged None [tomato 0] (a_protocol [''tomato''] 3)
       = Num 91"
proof -
  let ?protocol = "a_protocol [''tomato''] 3"
  note inst = zero_average_reads_as_one[of unicode_unchanged]
  have used: "ingredients_used ?protocol \<noteq> []"
    by (simp add: a_protocol_def)
  have all: "constraintSatisfaction unicode_unchanged [tomato 0] ?protocol = Num 1"
    by code_simp
  have averaging: "compositeScore (Num 0) (geminiCoherence ?protocol)
        (constraintSatisfaction unicode_unchanged [tomato 0] ?protocol) = Num 41"
    by code_simp
  have sum: "js_add (Num 41) (Num 50) = Num 91"
    by code_simp
  have "\<forall>protocol. constraintSatisfaction unicode_unchanged [tomato 0] protocol = Num 1 \<longrightarrow>
         calculateCompositeConfidence unicode_unchanged None [tomato 0] protocol =
           js_add (compositeScore (Num 0) (geminiCoherence protocol)
                     (constraintSatisfaction unicode_unchanged [tomato 0] protocol)) (Num 50)"
    using inst by (elim conjE) assumption
  with all have "calculateCompositeConfidence unicode_unchanged None [tomato 0] ?protocol =
           js_add (compositeScore (Num 0) (geminiCoherence ?protocol)
                     (constraintSatisfaction unicode_unchanged [tomato 0] ?protocol)) (Num 50)"
    by blast
  then have code: "calculateCompositeConfidence unicode_unchanged None [tomato 0] ?protocol = Num 91"
    by (simp only: averaging sum)
  have "\<forall>protocol. ingredients_used protocol \<noteq> [] \<longrightarrow>
         (\<exists>n m. calculateCompositeConfidence unicode_unchanged None [tomato 0] protocol = Num (of_int n)
            \<and> compositeScore (Num 0) (geminiCoherence protocol)
                 (constraintSatisfaction unicode_unchanged [tomato 0] protocol) = Num (of_int m)
            \<and> \<bar>n - (m + 50)\<bar> \<le> 1)"
    using inst by (elim conjE) assumption
  with used have "\<exists>n m. calculateCompositeConfidence unicode_unchanged None [tomato 0] ?protocol
              = Num (of_int n)
            \<and> compositeScore (Num 0) (geminiCoherence ?protocol)
                 (constraintSatisfaction unicode_unchanged [tomato 0] ?protocol) = Num (of_int m)
            \<and> \<bar>n - (m + 50)\<bar> \<le> 1"
    by blast
  with used all averaging code show ?thesis by blast
qed

end
